theory Spec2Isabelle
  imports Main "HOL-Library.Sublist"
begin

section \<open>Byte strings and the functions of Go's \<open>strings\<close> package that the client uses\<close>

text \<open>
  A Go \<open>string\<close> is a sequence of bytes; it is modelled as \<open>string\<close> (a \<open>char list\<close>,
  one \<open>char\<close> per byte). The control bytes that occur in the source are named here.
\<close>

definition BSL :: char where
  \<comment> \<open>the backslash, written \<open>"\\"\<close> in the Go source\<close>
  "BSL = CHR 0x5C"

definition CR :: char where
  "CR = CHR 0x0D"

definition LF :: char where
  "LF = CHR 0x0A"

definition X01 :: char where
  \<comment> \<open>the CTCP framing marker \<open>'\x01'\<close>\<close>
  "X01 = CHR 0x01"

text \<open>
  \<open>strings.Contains(s, substr)\<close>: scan the start positions of \<open>s\<close> from the left.
\<close>

fun Contains :: "string \<Rightarrow> string \<Rightarrow> bool" where
  "Contains [] substr = (substr = [])"
| "Contains (c # s) substr = (prefix substr (c # s) \<or> Contains s substr)"

text \<open>
  \<open>strings.Index(s, substr)\<close>: the first start position of \<open>substr\<close> in \<open>s\<close>; Go's
  \<open>-1\<close> is \<open>None\<close>.
\<close>

fun Index :: "string \<Rightarrow> string \<Rightarrow> nat option" where
  "Index [] substr = (if substr = [] then Some 0 else None)"
| "Index (c # s) substr =
     (if prefix substr (c # s) then Some 0 else map_option Suc (Index s substr))"

text \<open>
  \<open>strings.LastIndex(s, substr)\<close>: the last start position of \<open>substr\<close> in \<open>s\<close>.
\<close>

fun LastIndex :: "string \<Rightarrow> string \<Rightarrow> nat option" where
  "LastIndex [] substr = (if substr = [] then Some 0 else None)"
| "LastIndex (c # s) substr =
     (case LastIndex s substr of
        Some i \<Rightarrow> Some (Suc i)
      | None \<Rightarrow> (if prefix substr (c # s) then Some 0 else None))"

text \<open>
  \<open>strings.Replace(s, old, new, -1)\<close> for a two-byte \<open>old = [a, b]\<close>, the only form
  the client calls: the non-overlapping occurrences of \<open>old\<close> are replaced from the left.
\<close>

fun Replace :: "string \<Rightarrow> char \<Rightarrow> char \<Rightarrow> string \<Rightarrow> string" where
  "Replace (x # y # s) a b new =
     (if x = a \<and> y = b then new @ Replace s a b new else x # Replace (y # s) a b new)"
| "Replace s a b new = s"

text \<open>
  \<open>strings.Split(s, sep)\<close> for a one-byte separator: the pieces between the
  occurrences of \<open>sep\<close>; a string without the separator is one piece.
\<close>

fun Split :: "string \<Rightarrow> char \<Rightarrow> string list" where
  "Split [] sep = [[]]"
| "Split (c # s) sep =
     (if c = sep then [] # Split s sep
      else (case Split s sep of p # ps \<Rightarrow> (c # p) # ps | [] \<Rightarrow> [[c]]))"

text \<open>
  \<open>strings.SplitN(s, sep, 2)\<close>: cut once at the first occurrence of \<open>sep\<close>.
\<close>

definition SplitN2 :: "string \<Rightarrow> string \<Rightarrow> string list" where
  "SplitN2 s sep =
     (case Index s sep of
        None \<Rightarrow> [s]
      | Some i \<Rightarrow> [take i s, drop (i + length sep) s])"

text \<open>
  \<open>strings.TrimSuffix(s, suffix)\<close> for a one-byte suffix.
\<close>

definition TrimSuffix :: "string \<Rightarrow> char \<Rightarrow> string" where
  "TrimSuffix s c = (if s \<noteq> [] \<and> last s = c then butlast s else s)"

text \<open>
  \<open>strings.HasPrefix(s, p)\<close> is \<^const>\<open>prefix\<close> with the arguments swapped.
\<close>

definition HasPrefix :: "string \<Rightarrow> string \<Rightarrow> bool" where
  "HasPrefix s p = prefix p s"

text \<open>
  \<open>strings.ToUpper\<close> and \<open>strings.ToLower\<close> map Unicode code points, so on bytes
  beyond ASCII they are not a byte-wise map. The functions below take the case
  mapping as a parameter; \<open>ToUpper_ascii\<close> and \<open>ToLower_ascii\<close> are what Go computes
  on ASCII input, and are used to evaluate concrete lines.
\<close>

definition ToUpper_ascii :: "string \<Rightarrow> string" where
  "ToUpper_ascii s =
     map (\<lambda>c. if (97::nat) \<le> of_char c \<and> of_char c \<le> (122::nat)
              then char_of (of_char c - (32::nat)) else c) s"

definition ToLower_ascii :: "string \<Rightarrow> string" where
  "ToLower_ascii s =
     map (\<lambda>c. if (65::nat) \<le> of_char c \<and> of_char c \<le> (90::nat)
              then char_of (of_char c + (32::nat)) else c) s"

section \<open>Message tags: \<open>unescapeTagValue\<close>\<close>

text \<open>
  The five replacements run one after the other over the whole value, in the order of
  the source.
\<close>

definition unescapeTagValue :: "string \<Rightarrow> string" where
  "unescapeTagValue value0 =
     (let value1 = Replace value0 BSL (CHR '':'') '';'';
          value2 = Replace value1 BSL (CHR ''s'') '' '';
          value3 = Replace value2 BSL BSL [BSL];
          value4 = Replace value3 BSL (CHR ''r'') [CR];
          value5 = Replace value4 BSL (CHR ''n'') [LF]
      in value5)"

text \<open>
  The repository has a decoder only. The encoder of the round trip follows the escape
  table of the specification, byte by byte: \<open>;\<close> to \<open>\:\<close>, space to \<open>\s\<close>, \<open>\\<close> to
  \<open>\\\<close>, CR to \<open>\r\<close>, LF to \<open>\n\<close>, every other byte unchanged.
\<close>

definition escapeChar_spec :: "char \<Rightarrow> string" where
  "escapeChar_spec c =
     (if c = CHR '';'' then [BSL, CHR '':'']
      else if c = CHR '' '' then [BSL, CHR ''s'']
      else if c = BSL then [BSL, BSL]
      else if c = CR then [BSL, CHR ''r'']
      else if c = LF then [BSL, CHR ''n'']
      else [c])"

definition escapeTagValue_spec :: "string \<Rightarrow> string" where
  "escapeTagValue_spec s = concat (map escapeChar_spec s)"

text \<open>
  The shape of a byte-wise encoding in which a backslash only ever starts a two-byte
  escape whose second byte is not a backslash.
\<close>

definition escapeShape :: "(char \<Rightarrow> string) \<Rightarrow> char \<Rightarrow> bool" where
  "escapeShape f c \<longleftrightarrow>
     (\<exists>c'. f c = [c'] \<and> c' \<noteq> BSL) \<or> (\<exists>x. f c = [BSL, x] \<and> x \<noteq> BSL)"

section \<open>Classification of ERROR text: \<open>AnalyzeErrorMessage\<close>\<close>

datatype ErrorType = RecoverableError | PermanentError | ServerError | NetworkError

fun ErrorType_String :: "ErrorType \<Rightarrow> string" where
  "ErrorType_String RecoverableError = ''RecoverableError''"
| "ErrorType_String PermanentError = ''PermanentError''"
| "ErrorType_String ServerError = ''ServerError''"
| "ErrorType_String NetworkError = ''NetworkError''"

definition permanentPatterns :: "string list" where
  "permanentPatterns =
     [''k-lined'', ''k-line'', ''klined'',
      ''g-lined'', ''g-line'', ''glined'',
      ''banned'', ''you are banned'', ''user is banned'',
      ''unauthorized connection'',
      ''connection refused'',
      ''access denied'',
      ''you are not authorized'',
      ''blacklisted'',
      ''throttled'', ''throttling'',
      ''flood'', ''flooding'',
      ''spam'', ''spamming'']"

definition serverPatterns :: "string list" where
  "serverPatterns =
     [''too many connections'',
      ''too many host connections'',
      ''too many host connections (local)'',
      ''too many host connections (global)'',
      ''too many global connections'',
      ''connection limit exceeded'',
      ''server full'',
      ''max connections reached'',
      ''too many connections from this ip'',
      ''too many connections from your host'',
      ''connection limit'',
      ''host limit'',
      ''ip limit'',
      ''clone limit'',
      ''too many clones'']"

definition networkPatterns :: "string list" where
  "networkPatterns =
     [''connection reset'',
      ''connection timed out'',
      ''network unreachable'',
      ''no route to host'',
      ''connection lost'',
      ''broken pipe'']"

definition recoverablePatterns :: "string list" where
  "recoverablePatterns =
     [''registration timeout'',
      ''ping timeout'',
      ''server shutting down'',
      ''server restart'']"

text \<open>
  The loop \<open>for _, pattern := range patterns { if strings.Contains(errorLower, pattern)
  { return t } }\<close>: \<open>True\<close> when the loop returns at some pattern.
\<close>

fun matchesAny :: "string \<Rightarrow> string list \<Rightarrow> bool" where
  "matchesAny errorLower [] = False"
| "matchesAny errorLower (pattern # patterns) =
     (if Contains errorLower pattern then True else matchesAny errorLower patterns)"

definition AnalyzeErrorMessage :: "(string \<Rightarrow> string) \<Rightarrow> string \<Rightarrow> ErrorType" where
  "AnalyzeErrorMessage toLower errorMsg =
     (let errorLower = toLower errorMsg in
      if matchesAny errorLower permanentPatterns then PermanentError
      else if matchesAny errorLower serverPatterns then ServerError
      else if matchesAny errorLower networkPatterns then NetworkError
      else if matchesAny errorLower recoverablePatterns then RecoverableError
      else RecoverableError)"

text \<open>
  What the specification means by a family matching a text: one of the family's
  patterns occurs in the text as a substring (\<^const>\<open>sublist\<close> of the library).
\<close>

definition occursIn :: "string list \<Rightarrow> string \<Rightarrow> bool" where
  "occursIn patterns s = (\<exists>p\<in>set patterns. sublist p s)"

section \<open>Events and the wire parser: \<open>parseToEvent\<close>\<close>

text \<open>
  The fields of \<open>Event\<close> that the parser and the dispatcher read or write. A \<open>nil\<close>
  tag map and an empty one are both the empty map.
\<close>

record Event =
  Code :: string
  Raw :: string
  Nick :: string
  Host :: string
  Source :: string
  User :: string
  Arguments :: "string list"
  Tags :: "string \<rightharpoonup> string"

text \<open>
  \<open>Message\<close>: the last argument, or the empty string when there is none.
\<close>

definition Message :: "Event \<Rightarrow> string" where
  "Message e = (if length (Arguments e) = 0 then [] else Arguments e ! (length (Arguments e) - 1))"

text \<open>
  The parser either returns an event, or the error \<open>malformed msg from server\<close>, or
  panics with an index out of range (\<open>msg[0]\<close> on an empty string).
\<close>

datatype parse_error = MalformedMsg | IndexOutOfRange

text \<open>
  One tag of the tag segment: \<open>strings.SplitN(data, "=", 2)\<close>, a key alone maps to the
  empty string, otherwise the value is unescaped.
\<close>

definition addTag :: "string \<Rightarrow> (string \<rightharpoonup> string) \<Rightarrow> (string \<rightharpoonup> string)" where
  "addTag data tags =
     (case SplitN2 data ''='' of
        [k] \<Rightarrow> tags(k \<mapsto> [])
      | k # v # _ \<Rightarrow> tags(k \<mapsto> unescapeTagValue v)
      | [] \<Rightarrow> tags)"

text \<open>
  The block \<open>if msg[0] == '@'\<close>; the caller has checked that \<open>msg\<close> is not empty.
  It returns the rest of the line and the event with its tags.
\<close>

definition parseTags :: "string \<Rightarrow> Event \<Rightarrow> parse_error + (string \<times> Event)" where
  "parseTags msg event =
     (if hd msg = CHR ''@'' then
        (case Index msg '' '' of
           Some i \<Rightarrow>
             Inr (drop (i + 1) msg,
                  event\<lparr>Tags := fold addTag (Split (take (i - 1) (drop 1 msg)) (CHR '';'')) Map.empty\<rparr>)
         | None \<Rightarrow> Inl MalformedMsg)
      else Inr (msg, event))"

text \<open>
  The decomposition of the source into nick, user and host, when it holds \<open>!\<close> before
  \<open>@\<close>.
\<close>

definition splitSource :: "Event \<Rightarrow> Event" where
  "splitSource event =
     (case (Index (Source event) ''!'', Index (Source event) ''@'') of
        (Some i, Some j) \<Rightarrow>
          (if i < j
           then event\<lparr>Nick := take i (Source event),
                      User := take (j - (i + 1)) (drop (i + 1) (Source event)),
                      Host := drop (j + 1) (Source event)\<rparr>
           else event)
      | _ \<Rightarrow> event)"

text \<open>
  The block \<open>if msg[0] == ':'\<close>. Here \<open>msg\<close> may be empty (a tag segment followed by
  nothing), and \<open>msg[0]\<close> panics.
\<close>

definition parseSource :: "string \<Rightarrow> Event \<Rightarrow> parse_error + (string \<times> Event)" where
  "parseSource msg event =
     (case msg of
        [] \<Rightarrow> Inl IndexOutOfRange
      | c # _ \<Rightarrow>
          (if c = CHR '':'' then
             (case Index msg '' '' of
                Some i \<Rightarrow>
                  Inr (drop (i + 1) msg, splitSource (event\<lparr>Source := take (i - 1) (drop 1 msg)\<rparr>))
              | None \<Rightarrow> Inl MalformedMsg)
           else Inr (msg, event)))"

text \<open>
  The command and its arguments: one cut at the first \<open>" :"\<close>, the part before it split
  at the spaces, the first piece upper-cased, the part after it appended as the last
  argument.
\<close>

definition parseCommand :: "(string \<Rightarrow> string) \<Rightarrow> string \<Rightarrow> Event \<Rightarrow> parse_error + Event" where
  "parseCommand toUpper msg event =
     (let split = SplitN2 msg '' :'' in
      case Split (hd split) (CHR '' '') of
        [] \<Rightarrow> Inl IndexOutOfRange
      | a # args \<Rightarrow>
          Inr (event\<lparr>Code := toUpper a,
                     Arguments := (if length split > 1 then args @ [split ! 1] else args)\<rparr>))"

definition parseToEvent :: "(string \<Rightarrow> string) \<Rightarrow> string \<Rightarrow> parse_error + Event" where
  "parseToEvent toUpper msg0 =
     (let msg = TrimSuffix (TrimSuffix msg0 LF) CR;
          event = \<lparr>Code = [], Raw = msg, Nick = [], Host = [], Source = [], User = [],
                   Arguments = [], Tags = Map.empty\<rparr>
      in if length msg < 1 then Inl MalformedMsg
         else
           (case parseTags msg event of
              Inl err \<Rightarrow> Inl err
            | Inr (msg1, event1) \<Rightarrow>
                (case parseSource msg1 event1 of
                   Inl err \<Rightarrow> Inl err
                 | Inr (msg2, event2) \<Rightarrow> parseCommand toUpper msg2 event2)))"

text \<open>
  Two notions for stating what the parser rejects. The rest of a line after its first
  space (empty when there is no space), which is where the parser continues after a tag
  segment; and the trimmed lines that run into one of the three
  \<open>malformed msg from server\<close> returns: the empty line, a line that starts with the
  tag marker or the source marker and has no space, and a tag segment followed by a
  source marker with no space after it.
\<close>

definition afterFirstSpace :: "string \<Rightarrow> string" where
  "afterFirstSpace msg = tl (dropWhile (\<lambda>c. c \<noteq> CHR '' '') msg)"

definition malformedLine :: "string \<Rightarrow> bool" where
  "malformedLine msg =
     (msg = []
      \<or> (hd msg = CHR ''@'' \<and> CHR '' '' \<notin> set msg)
      \<or> (hd msg = CHR '':'' \<and> CHR '' '' \<notin> set msg)
      \<or> (hd msg = CHR ''@'' \<and> CHR '' '' \<in> set msg \<and> afterFirstSpace msg \<noteq> []
          \<and> hd (afterFirstSpace msg) = CHR '':'' \<and> CHR '' '' \<notin> set (afterFirstSpace msg)))"

section \<open>The session: \<open>Connection\<close>\<close>

text \<open>
  A \<open>time.Time\<close> and a \<open>time.Duration\<close> are counted in nanoseconds. Every operation
  that reads the clock takes the reading as its argument \<open>now\<close>. The zero time is 0,
  and \<open>time.Since(t)\<close> is \<open>now - t\<close>.
\<close>

type_synonym Time = int

definition Second :: int where
  "Second = 1000000000"

text \<open>
  The fields of \<open>Connection\<close> that the identity state machine, the handshake and the
  control loop read or write. \<open>pwrite\<close> is the outbound queue: the channel is modelled
  as the list of the messages sent on it, oldest first, without its capacity.
\<close>

record Connection =
  nick :: string
  nickcurrent :: string
  nickPending :: string
  user :: string
  RealName :: string
  fullyConnected :: bool
  lastNickChange :: Time
  nickError :: string
  registrationSteps :: int
  registrationStartTime :: Time
  nickChangeInProgress :: bool
  nickChangeTimeout :: Time
  UseSASL :: bool
  RequestCaps :: "string list"
  CapVersion :: string
  Respect020Pacing :: bool
  got020 :: bool
  sentRegistration :: bool
  WebIRC :: string
  Password :: string
  stopped :: bool
  quit :: bool
  HandleErrorAsDisconnect :: bool
  SmartErrorHandling :: bool
  MaxRecoverableReconnects :: int
  recoverableReconnects :: int
  pwrite :: "string list"

text \<open>
  \<open>IRC(nick, user)\<close>: \<open>nil\<close> (here \<open>None\<close>) when the nick or the user is empty. The
  fields that the constructor does not name have Go's zero value.
\<close>

definition IRC :: "Time \<Rightarrow> string \<Rightarrow> string \<Rightarrow> Connection option" where
  "IRC now nick0 user0 =
     (if length nick0 = 0 then None
      else if length user0 = 0 then None
      else Some \<lparr>nick = nick0, nickcurrent = nick0, nickPending = [], user = user0,
                  RealName = [], fullyConnected = False, lastNickChange = now,
                  nickError = [], registrationSteps = 0, registrationStartTime = 0,
                  nickChangeInProgress = False, nickChangeTimeout = 0,
                  UseSASL = False, RequestCaps = [],
                  CapVersion = ''302'', Respect020Pacing = True, got020 = False,
                  sentRegistration = False, WebIRC = [], Password = [],
                  stopped = False, quit = False,
                  HandleErrorAsDisconnect = True, SmartErrorHandling = True,
                  MaxRecoverableReconnects = 3, recoverableReconnects = 0,
                  pwrite = []\<rparr>)"

text \<open>
  \<open>SendRaw\<close>: the message and the line terminator go on the outbound queue.
\<close>

definition SendRaw :: "string \<Rightarrow> Connection \<Rightarrow> Connection" where
  "SendRaw message irc = irc\<lparr>pwrite := pwrite irc @ [message @ [CR, LF]]\<rparr>"

subsection \<open>The identity state machine\<close>

text \<open>
  \<open>modifyNick\<close>: the alternative nickname is written over \<open>nickcurrent\<close>.
\<close>

definition modifyNick :: "Connection \<Rightarrow> Connection" where
  "modifyNick irc =
     (if length (nickcurrent irc) > 8
      then irc\<lparr>nickcurrent := ''_'' @ nickcurrent irc\<rparr>
      else irc\<lparr>nickcurrent := nickcurrent irc @ ''_''\<rparr>)"

text \<open>
  The callbacks for 433, 437 and 436 have the same body and differ in the error text
  they record.
\<close>

definition nickRejected :: "string \<Rightarrow> Time \<Rightarrow> Event \<Rightarrow> Connection \<Rightarrow> Connection" where
  "nickRejected errText now e irc0 =
     (let irc = irc0\<lparr>nickError := errText\<rparr> in
      if length (Arguments e) > 1 then
        (let attemptedNick = Arguments e ! 1 in
         if attemptedNick = nick irc then
           (let irc1 = (if nickcurrent irc = [] then irc\<lparr>nickcurrent := nick irc\<rparr> else irc);
                irc2 = modifyNick irc1;
                irc3 = irc2\<lparr>lastNickChange := now\<rparr>
            in SendRaw (''NICK '' @ nickcurrent irc3) irc3)
         else irc)
      else irc)"

definition callback_433 :: "Time \<Rightarrow> Event \<Rightarrow> Connection \<Rightarrow> Connection" where
  "callback_433 = nickRejected ''Nickname already in use''"

definition callback_437 :: "Time \<Rightarrow> Event \<Rightarrow> Connection \<Rightarrow> Connection" where
  "callback_437 = nickRejected ''Nickname temporarily unavailable''"

definition callback_436 :: "Time \<Rightarrow> Event \<Rightarrow> Connection \<Rightarrow> Connection" where
  "callback_436 = nickRejected ''Nickname collision''"

definition callback_431 :: "Time \<Rightarrow> Event \<Rightarrow> Connection \<Rightarrow> Connection" where
  "callback_431 now e irc0 =
     (let irc = irc0\<lparr>nickError := ''No nickname given''\<rparr>;
          irc1 = (if nickcurrent irc = [] then irc\<lparr>nickcurrent := nick irc\<rparr> else irc)
      in if nick irc1 \<noteq> [] then SendRaw (''NICK '' @ nick irc1) (irc1\<lparr>lastNickChange := now\<rparr>)
         else irc1)"

definition callback_432 :: "Time \<Rightarrow> Event \<Rightarrow> Connection \<Rightarrow> Connection" where
  "callback_432 now e irc0 =
     (let irc = irc0\<lparr>nickError := ''Erroneous nickname''\<rparr> in
      if length (Arguments e) > 1 then
        (let attemptedNick = Arguments e ! 1 in
         if attemptedNick = nick irc \<or> attemptedNick = nickcurrent irc then
           (let irc1 = (if nickcurrent irc = [] then irc\<lparr>nickcurrent := nick irc\<rparr> else irc);
                irc2 = irc1\<lparr>nickcurrent := ''Err'' @ nickcurrent irc1\<rparr>;
                irc3 = irc2\<lparr>lastNickChange := now\<rparr>
            in SendRaw (''NICK '' @ nickcurrent irc3) irc3)
         else irc)
      else irc)"

definition callback_484 :: "Time \<Rightarrow> Event \<Rightarrow> Connection \<Rightarrow> Connection" where
  "callback_484 now e irc = irc\<lparr>nickError := ''Restricted nickname''\<rparr>"

text \<open>
  The NICK callback: a change notification whose source nick is the current nickname.
\<close>

definition callback_NICK :: "Time \<Rightarrow> Event \<Rightarrow> Connection \<Rightarrow> Connection" where
  "callback_NICK now e irc =
     (if Nick e = nickcurrent irc then
        (let newNick = Message e in
         if newNick \<noteq> [] then
           irc\<lparr>nickcurrent := newNick,
               nickChangeInProgress := False,
               nick := newNick,
               lastNickChange := now,
               nickError := []\<rparr>
         else irc)
      else irc)"

text \<open>
  The NICK callback of the earlier revision kept in \<open>irc_struct.go\<close>: the desired
  nickname follows only when it was the old current one.
\<close>

definition callback_NICK_earlier :: "Time \<Rightarrow> Event \<Rightarrow> Connection \<Rightarrow> Connection" where
  "callback_NICK_earlier now e irc =
     (if Nick e = nickcurrent irc then
        (let newNick = Message e in
         if newNick \<noteq> [] then
           (let irc1 = irc\<lparr>nickcurrent := newNick\<rparr>;
                irc2 = (if nick irc1 = Nick e then irc1\<lparr>nick := newNick\<rparr> else irc1)
            in irc2\<lparr>lastNickChange := now, nickError := []\<rparr>)
         else irc)
      else irc)"

text \<open>
  The 001 callback reads \<open>e.Arguments[0]\<close>; without arguments it panics (\<open>None\<close>).
\<close>

definition callback_001 :: "Time \<Rightarrow> Event \<Rightarrow> Connection \<Rightarrow> Connection option" where
  "callback_001 now e irc =
     (case Arguments e of
        [] \<Rightarrow> None
      | a # _ \<Rightarrow>
          Some (irc\<lparr>nickcurrent := a,
                    nick := a,
                    fullyConnected := True,
                    lastNickChange := now,
                    nickError := [],
                    registrationSteps := 1,
                    registrationStartTime := now\<rparr>))"

text \<open>
  \<open>Nick(n)\<close>, the caller's request. While a change is in progress and younger than 30
  seconds only the desired and pending names are updated.
\<close>

definition Connection_Nick :: "Time \<Rightarrow> string \<Rightarrow> Connection \<Rightarrow> Connection" where
  "Connection_Nick now n irc =
     (if nickChangeInProgress irc \<and> now - nickChangeTimeout irc < 30 * Second then
        irc\<lparr>nick := n, nickPending := n, lastNickChange := now\<rparr>
      else
        (let irc1 = irc\<lparr>nick := n, lastNickChange := now\<rparr> in
         if nickcurrent irc1 \<noteq> n then
           SendRaw (''NICK '' @ n)
             (irc1\<lparr>nickChangeInProgress := True, nickChangeTimeout := now, nickPending := n\<rparr>)
         else irc1\<lparr>nickPending := [], nickChangeInProgress := False\<rparr>))"

text \<open>
  \<open>GetNick\<close> returns the current nickname.
\<close>

definition GetNick :: "Connection \<Rightarrow> string" where
  "GetNick irc = nickcurrent irc"

text \<open>
  The callbacks that \<open>setupCallbacks\<close> registers for the nickname replies, by event
  code. An event with another code leaves the identity fields alone.
\<close>

definition dispatch :: "Time \<Rightarrow> Event \<Rightarrow> Connection \<Rightarrow> Connection option" where
  "dispatch now e irc =
     (if Code e = ''433'' then Some (callback_433 now e irc)
      else if Code e = ''437'' then Some (callback_437 now e irc)
      else if Code e = ''431'' then Some (callback_431 now e irc)
      else if Code e = ''432'' then Some (callback_432 now e irc)
      else if Code e = ''436'' then Some (callback_436 now e irc)
      else if Code e = ''484'' then Some (callback_484 now e irc)
      else if Code e = ''NICK'' then Some (callback_NICK now e irc)
      else if Code e = ''001'' then callback_001 now e irc
      else Some irc)"

text \<open>
  The inputs of the identity state machine: a line read from the server, which
  \<open>readLoop\<close> parses and hands to the callbacks (a line that does not parse is dropped),
  or a call of \<open>Nick\<close>. Each runs under the session lock, so a run of the machine is a
  sequence of such steps, each with its clock reading. \<open>None\<close> is a panic.
\<close>

datatype input = Line string | CallNick string

definition step :: "(string \<Rightarrow> string) \<Rightarrow> Time \<Rightarrow> input \<Rightarrow> Connection \<Rightarrow> Connection option" where
  "step toUpper now i irc =
     (case i of
        CallNick n \<Rightarrow> Some (Connection_Nick now n irc)
      | Line l \<Rightarrow>
          (case parseToEvent toUpper l of
             Inl MalformedMsg \<Rightarrow> Some irc
           | Inl IndexOutOfRange \<Rightarrow> None
           | Inr e \<Rightarrow> dispatch now e irc))"

fun run :: "(string \<Rightarrow> string) \<Rightarrow> (Time \<times> input) list \<Rightarrow> Connection \<Rightarrow> Connection option" where
  "run toUpper [] irc = Some irc"
| "run toUpper ((now, i) # rest) irc =
     (case step toUpper now i irc of None \<Rightarrow> None | Some irc' \<Rightarrow> run toUpper rest irc')"

section \<open>Connecting and registering: \<open>Connect\<close>, \<open>Reconnect\<close>, \<open>negotiateCaps\<close>\<close>

text \<open>
  The two lines \<open>NICK\<close> and \<open>USER\<close> that announce the identity.
\<close>

definition sendRegistration :: "Connection \<Rightarrow> Connection" where
  "sendRegistration irc =
     (let realname = (if RealName irc \<noteq> [] then RealName irc else user irc) in
      irc\<lparr>pwrite := pwrite irc @
               [''NICK '' @ nick irc @ [CR, LF],
                ''USER '' @ user irc @ '' 0 * :'' @ realname @ [CR, LF]]\<rparr>)"

text \<open>
  The three places of \<open>negotiateCaps\<close> that send the registration, each guarded by
  \<open>sentRegistration\<close> under the session lock: at once when no capability is requested,
  in the CAP handler when the LS reply is seen, and in the goroutine that wakes after
  800 milliseconds. The first and the last also record the pending nickname. The pause
  for the pacing of numeric 020 changes no field and is left out.
\<close>

definition registerImmediately :: "Connection \<Rightarrow> Connection" where
  "registerImmediately irc =
     (if \<not> sentRegistration irc
      then sendRegistration (irc\<lparr>sentRegistration := True, nickPending := nick irc\<rparr>)
      else irc)"

definition registerOnLS :: "Connection \<Rightarrow> Connection" where
  "registerOnLS irc =
     (if \<not> sentRegistration irc
      then sendRegistration (irc\<lparr>sentRegistration := True\<rparr>)
      else irc)"

definition registerFallback :: "Connection \<Rightarrow> Connection" where
  "registerFallback irc =
     (if sentRegistration irc then irc
      else sendRegistration (irc\<lparr>sentRegistration := True, nickPending := nick irc\<rparr>))"

text \<open>
  The part of \<open>negotiateCaps\<close> that runs before it waits: the list of requested
  capabilities is cleared, \<open>sasl\<close> is requested when SASL is on, and either the
  registration is sent at once or \<open>CAP LS\<close> is sent and the CAP handler and the
  fallback timer are installed. The list of acknowledged capabilities, which is cleared
  here as well, is not among the fields modelled.
\<close>

definition negotiateCaps :: "Connection \<Rightarrow> Connection" where
  "negotiateCaps irc0 =
     (let irc = irc0\<lparr>RequestCaps := []\<rparr>;
          irc1 = (if UseSASL irc then irc\<lparr>RequestCaps := RequestCaps irc @ [''sasl'']\<rparr> else irc)
      in if length (RequestCaps irc1) = 0 then registerImmediately irc1
         else if CapVersion irc1 \<noteq> []
           then irc1\<lparr>pwrite := pwrite irc1 @ [''CAP LS '' @ CapVersion irc1 @ [CR, LF]]\<rparr>
           else irc1\<lparr>pwrite := pwrite irc1 @ [''CAP LS'' @ [CR, LF]]\<rparr>)"

text \<open>
  The requests of the CAP handler on an LS reply: one \<open>CAP REQ\<close> for every listed
  capability that is in \<open>RequestCaps\<close>.
\<close>

definition capRequests :: "string list \<Rightarrow> string list \<Rightarrow> string list" where
  "capRequests listed requested =
     concat (map (\<lambda>cap_name.
        concat (map (\<lambda>req_cap.
           if cap_name = req_cap then [''CAP REQ :'' @ cap_name @ [CR, LF]] else [])
         requested))
      listed)"

text \<open>
  The CAP handler: on LS the requests and then the registration. On ACK and NAK it
  writes only the list of acknowledged capabilities and its private channel, which
  count the outstanding capabilities and are not modelled.
\<close>

definition callback_CAP :: "Event \<Rightarrow> Connection \<Rightarrow> Connection" where
  "callback_CAP e irc =
     (if length (Arguments e) < 2 then irc
      else
        (let command = Arguments e ! 1 in
         if command = ''LS'' then
           (let irc1 = (if length (Arguments e) \<ge> 3
                        then irc\<lparr>pwrite := pwrite irc @
                                   capRequests (Split (Arguments e ! 2) (CHR '' '')) (RequestCaps irc)\<rparr>
                        else irc)
            in registerOnLS irc1)
         else irc))"

text \<open>
  What the environment decides in a call of \<open>Connect\<close>: the address checks or the dial
  fail, or the connection is made and \<open>negotiateCaps\<close> returns an error (SASL), or it
  returns without one.
\<close>

datatype connect_env = DialFails | NegotiationFails | Connects

text \<open>
  \<open>Connect\<close> in three parts. First the server is marked as stopped and the
  registration status is reset under the lock. Then come the checks of the address and
  the dial, which touch none of the fields modelled here and whose outcome the
  environment decides. Once the socket is there the session is marked as running, a
  new outbound queue is made, the optional \<open>WEBIRC\<close> and \<open>PASS\<close> lines are sent, and
  \<open>negotiateCaps\<close> runs. The result is the pair of "no error" and the session.
\<close>

definition Connect_reset :: "Connection \<Rightarrow> Connection" where
  "Connect_reset irc =
     irc\<lparr>stopped := True,
         fullyConnected := False,
         registrationSteps := 0,
         registrationStartTime := 0,
         nickPending := [],
         nickChangeInProgress := False\<rparr>"

definition Connect_open :: "Connection \<Rightarrow> Connection" where
  "Connect_open irc =
     (let irc1 = irc\<lparr>stopped := False, pwrite := []\<rparr>;
          irc2 = (if length (WebIRC irc1) > 0
                  then irc1\<lparr>pwrite := pwrite irc1 @ [''WEBIRC '' @ WebIRC irc1 @ [CR, LF]]\<rparr>
                  else irc1);
          irc3 = (if length (Password irc2) > 0
                  then irc2\<lparr>pwrite := pwrite irc2 @ [''PASS '' @ Password irc2 @ [CR, LF]]\<rparr>
                  else irc2)
      in irc3)"

definition Connect :: "connect_env \<Rightarrow> Connection \<Rightarrow> bool \<times> Connection" where
  "Connect env irc0 =
     (let irc = Connect_reset irc0
      in if env = DialFails then (False, irc)
         else (env = Connects, negotiateCaps (Connect_open irc)))"

definition Reconnect :: "connect_env \<Rightarrow> Connection \<Rightarrow> bool \<times> Connection" where
  "Reconnect env irc =
     Connect env (irc\<lparr>fullyConnected := False,
                       registrationSteps := 0,
                       registrationStartTime := 0,
                       nickPending := [],
                       nickChangeInProgress := False\<rparr>)"

text \<open>
  What can happen after \<open>negotiateCaps\<close> has sent \<open>CAP LS\<close>: a line of the server
  is parsed and, when its code is CAP, reaches the CAP handler; or the fallback timer
  fires. Neither the handler nor the timer exists when no capability was requested.
\<close>

datatype trigger = ServerLine string | FallbackTimer

definition fire :: "(string \<Rightarrow> string) \<Rightarrow> trigger \<Rightarrow> Connection \<Rightarrow> Connection" where
  "fire toUpper t irc =
     (if length (RequestCaps irc) = 0 then irc
      else
        (case t of
           FallbackTimer \<Rightarrow> registerFallback irc
         | ServerLine l \<Rightarrow>
             (case parseToEvent toUpper l of
                Inr e \<Rightarrow> (if Code e = ''CAP'' then callback_CAP e irc else irc)
              | Inl err \<Rightarrow> irc)))"

text \<open>
  The number of \<open>NICK\<close> lines and of \<open>USER\<close> lines on the outbound queue.
\<close>

definition nickLines :: "Connection \<Rightarrow> nat" where
  "nickLines irc = length (filter (\<lambda>m. prefix ''NICK '' m) (pwrite irc))"

definition userLines :: "Connection \<Rightarrow> nat" where
  "userLines irc = length (filter (\<lambda>m. prefix ''USER '' m) (pwrite irc))"

text \<open>
  Two states of the registration on the current outbound queue. Within an attempt that
  started with the flag down, the queue holds one \<open>NICK\<close> and one \<open>USER\<close> line when
  the flag is up and none when it is down. In an attempt that started with the flag
  already up, the flag is up and the queue holds neither line.
\<close>

definition attemptState :: "Connection \<Rightarrow> bool" where
  "attemptState irc \<longleftrightarrow>
     (if sentRegistration irc then nickLines irc = 1 \<and> userLines irc = 1
      else nickLines irc = 0 \<and> userLines irc = 0)"

definition staleState :: "Connection \<Rightarrow> bool" where
  "staleState irc \<longleftrightarrow> sentRegistration irc \<and> nickLines irc = 0 \<and> userLines irc = 0"

section \<open>The control loop: \<open>readLoop\<close> on ERROR and \<open>Loop\<close>\<close>

text \<open>
  The error that \<open>readLoop\<close> posts on the error channel for a parsed event, if any.
\<close>

definition readLoop_error ::
  "(string \<Rightarrow> string) \<Rightarrow> (string \<Rightarrow> string) \<Rightarrow> Event \<Rightarrow> Connection \<Rightarrow> string option" where
  "readLoop_error toUpper toLower event irc =
     (if HandleErrorAsDisconnect irc \<and> toUpper (Code event) = ''ERROR'' then
        (let errorMsg = Message event in
         if SmartErrorHandling irc then
           (case AnalyzeErrorMessage toLower errorMsg of
              PermanentError \<Rightarrow> Some (''Received permanent ERROR from server: '' @ errorMsg)
            | RecoverableError \<Rightarrow> Some (''Received RecoverableError from server: '' @ errorMsg)
            | errorType \<Rightarrow>
                Some (''Received '' @ ErrorType_String errorType @ '' from server: '' @ errorMsg))
         else Some (''Received ERROR from server: '' @ errorMsg))
      else None)"

text \<open>
  \<open>readLoop\<close> on one line: the line is parsed and the error, if any, is posted.
\<close>

definition readLoop_posts ::
  "(string \<Rightarrow> string) \<Rightarrow> (string \<Rightarrow> string) \<Rightarrow> string \<Rightarrow> Connection \<Rightarrow> string option" where
  "readLoop_posts toUpper toLower line irc =
     (case parseToEvent toUpper line of
        Inr event \<Rightarrow> readLoop_error toUpper toLower event irc
      | Inl err \<Rightarrow> None)"

text \<open>
  The inner loop of \<open>Loop\<close>: reconnect until one attempt succeeds. The outcomes of the
  attempts come from the environment, one per attempt; \<open>None\<close> when they run out while
  the loop is still turning. The number of calls of \<open>Reconnect\<close> is counted in \<open>n\<close>.
  The quit flag is read from the session; \<open>Quit\<close> running beside the loop is not
  modelled.
\<close>

fun reconnectLoop ::
  "string \<Rightarrow> connect_env list \<Rightarrow> Connection \<Rightarrow> nat \<Rightarrow> (connect_env list \<times> Connection \<times> nat) option" where
  "reconnectLoop errStr [] irc n = (if quit irc then Some ([], irc, n) else None)"
| "reconnectLoop errStr (env # envs) irc n =
     (if quit irc then Some (env # envs, irc, n)
      else
        (let irc1 = (if Contains errStr ''RecoverableError''
                     then irc\<lparr>recoverableReconnects := recoverableReconnects irc + 1\<rparr>
                     else irc)
         in case Reconnect env irc1 of
              (False, irc2) \<Rightarrow> reconnectLoop errStr envs irc2 (Suc n)
            | (True, irc2) \<Rightarrow> Some (envs, irc2\<lparr>recoverableReconnects := 0\<rparr>, Suc n)))"

text \<open>
  How a run of \<open>Loop\<close> ends on a finite script: it has returned, or it waits for the
  next error, or it is still trying to reconnect. Each carries the session and the
  number of calls of \<open>Reconnect\<close>.
\<close>

datatype loop_end =
    Returned Connection nat
  | WaitingForError Connection nat
  | StillReconnecting

text \<open>
  \<open>Loop\<close>: the errors arrive on the error channel in the order of the list.
\<close>

fun Loop :: "string list \<Rightarrow> connect_env list \<Rightarrow> Connection \<Rightarrow> nat \<Rightarrow> loop_end" where
  "Loop [] envs irc n = (if quit irc then Returned irc n else WaitingForError irc n)"
| "Loop (errStr # errs) envs irc n =
     (if quit irc then Returned irc n
      else if HandleErrorAsDisconnect irc
              \<and> Contains errStr ''Received permanent ERROR from server:'' then Returned irc n
      else if HandleErrorAsDisconnect irc
              \<and> Contains errStr ''RecoverableError''
              \<and> MaxRecoverableReconnects irc > 0
              \<and> recoverableReconnects irc \<ge> MaxRecoverableReconnects irc then Returned irc n
      else
        (case reconnectLoop errStr envs irc n of
           None \<Rightarrow> StillReconnecting
         | Some (envs', irc', n') \<Rightarrow> Loop errs envs' irc' n'))"

text \<open>
  Whether the loop has returned, and how many times it has called \<open>Reconnect\<close>.
\<close>

fun hasReturned :: "loop_end \<Rightarrow> bool" where
  "hasReturned (Returned irc n) = True"
| "hasReturned (WaitingForError irc n) = False"
| "hasReturned StillReconnecting = False"

fun reconnectCalls :: "loop_end \<Rightarrow> nat option" where
  "reconnectCalls (Returned irc n) = Some n"
| "reconnectCalls (WaitingForError irc n) = Some n"
| "reconnectCalls StillReconnecting = None"

section \<open>Event dispatch: \<open>RunCallbacks\<close>\<close>

text \<open>
  The first part of \<open>RunCallbacks\<close>: a PRIVMSG whose payload starts with the framing
  marker is reclassified. \<open>None\<close> is the early return on a payload without a closing
  marker, where no handler runs.
\<close>

definition ctcpRewrite :: "Event \<Rightarrow> Event option" where
  "ctcpRewrite event0 =
     (let msg = Message event0 in
      if Code event0 = ''PRIVMSG'' \<and> length msg > 2 \<and> hd msg = X01 then
        (let event = event0\<lparr>Code := ''CTCP''\<rparr> in
         case LastIndex msg [X01] of
           None \<Rightarrow> None
         | Some i \<Rightarrow>
             (if i > 0 then
                (let msg1 = take (i - 1) (drop 1 msg);
                     (code, msg2) =
                       (if msg1 = ''VERSION'' then (''CTCP_VERSION'', msg1)
                        else if msg1 = ''TIME'' then (''CTCP_TIME'', msg1)
                        else if HasPrefix msg1 ''PING'' then (''CTCP_PING'', msg1)
                        else if msg1 = ''USERINFO'' then (''CTCP_USERINFO'', msg1)
                        else if msg1 = ''CLIENTINFO'' then (''CTCP_CLIENTINFO'', msg1)
                        else if HasPrefix msg1 ''ACTION''
                          then (''CTCP_ACTION'', if length msg1 > 6 then drop 7 msg1 else [])
                        else (Code event, msg1))
                 in Some (event\<lparr>Code := code,
                                  Arguments := (Arguments event)[length (Arguments event) - 1 := msg2]\<rparr>))
              else None))
      else Some event0)"

text \<open>
  The registry maps an event code to the handlers registered for it, by identifier.
  Under the registry lock \<open>RunCallbacks\<close> copies the handlers of the event's code and
  then those of the wildcard into one map.
\<close>

definition callbacksFor :: "(string \<rightharpoonup> (nat \<rightharpoonup> 'h)) \<Rightarrow> string \<Rightarrow> (nat \<rightharpoonup> 'h)" where
  "callbacksFor events code =
     (case events code of Some eventCallbacks \<Rightarrow> eventCallbacks | None \<Rightarrow> Map.empty)
     ++ (case events ''*'' of Some allCallbacks \<Rightarrow> allCallbacks | None \<Rightarrow> Map.empty)"

text \<open>
  \<open>RunCallbacks\<close> returns the event as the handlers see it and the handlers it starts;
  the waiting for the handlers and the timeout are not modelled.
\<close>

definition RunCallbacks ::
  "(string \<rightharpoonup> (nat \<rightharpoonup> 'h)) \<Rightarrow> Event \<Rightarrow> (Event \<times> (nat \<rightharpoonup> 'h)) option" where
  "RunCallbacks events event0 =
     (case ctcpRewrite event0 of
        None \<Rightarrow> None
      | Some event \<Rightarrow> Some (event, callbacksFor events (Code event)))"

section \<open>The DCC chat registry\<close>

text \<open>
  A chat with its two channels (capacity 100), each a queue and a closed flag, and the
  state of its socket. The manager's map takes a nick to its chat; its mutex makes
  each operation below atomic.
\<close>

record DCCChat =
  chatNick :: string
  Incoming :: "string list"
  IncomingClosed :: bool
  Outgoing :: "string list"
  OutgoingClosed :: bool
  ConnClosed :: bool

type_synonym DCCManager = "string \<rightharpoonup> DCCChat"

datatype dcc_error =
    NoActiveChat string
  | ChannelFull string
  | ChatClosed string
  | NoMessage string
  | PanicClosedChannel

definition SendDCCMessage :: "string \<Rightarrow> string \<Rightarrow> DCCManager \<Rightarrow> dcc_error option \<times> DCCManager" where
  "SendDCCMessage nick0 message chats =
     (case chats nick0 of
        None \<Rightarrow> (Some (NoActiveChat nick0), chats)
      | Some chat \<Rightarrow>
          (if OutgoingClosed chat then (Some PanicClosedChannel, chats)
           else if length (Outgoing chat) < 100
             then (None, chats(nick0 \<mapsto> chat\<lparr>Outgoing := Outgoing chat @ [message]\<rparr>))
           else (Some (ChannelFull nick0), chats)))"

definition GetDCCMessage :: "string \<Rightarrow> DCCManager \<Rightarrow> (string \<times> dcc_error option) \<times> DCCManager" where
  "GetDCCMessage nick0 chats =
     (case chats nick0 of
        None \<Rightarrow> (([], Some (NoActiveChat nick0)), chats)
      | Some chat \<Rightarrow>
          (case Incoming chat of
             msg # rest \<Rightarrow> ((msg, None), chats(nick0 \<mapsto> chat\<lparr>Incoming := rest\<rparr>))
           | [] \<Rightarrow>
               (if IncomingClosed chat then (([], Some (ChatClosed nick0)), chats)
                else (([], Some (NoMessage nick0)), chats))))"

definition CloseDCCChat :: "string \<Rightarrow> DCCManager \<Rightarrow> dcc_error option \<times> DCCManager" where
  "CloseDCCChat nick0 chats =
     (case chats nick0 of
        None \<Rightarrow> (Some (NoActiveChat nick0), chats)
      | Some chat \<Rightarrow>
          (if OutgoingClosed chat then (Some PanicClosedChannel, chats)
           else (None, chats(nick0 := None))))"

text \<open>
  \<open>ListActiveDCCChats\<close> collects the keys of the map in the map's iteration order,
  which Go leaves open: the result is modelled as the set of the keys.
\<close>

definition ListActiveDCCChats :: "DCCManager \<Rightarrow> string set" where
  "ListActiveDCCChats chats = dom chats"

definition IsDCCChatActive :: "string \<Rightarrow> DCCManager \<Rightarrow> bool" where
  "IsDCCChatActive nick0 chats = (chats nick0 \<noteq> None)"

section \<open>Properties\<close>

subsection \<open>Library functions\<close>

lemma Contains_iff_sublist: "Contains s substr \<longleftrightarrow> sublist substr s"
  by (induction s) (simp_all add: sublist_Cons_right)

lemma matchesAny_iff_occursIn: "matchesAny l ps \<longleftrightarrow> occursIn ps l"
  unfolding occursIn_def by (induction ps) (simp_all add: Contains_iff_sublist)

lemma Index_char:
  "Index s [c] = (if c \<in> set s then Some (length (takeWhile (\<lambda>x. x \<noteq> c) s)) else None)"
  by (induction s) auto

lemma Split_not_Nil: "Split s c \<noteq> []"
  by (induction s) (auto split: list.splits)

lemma LastIndex_snoc: "LastIndex (s @ [c]) [c] = Some (length s)"
  by (induction s) auto

lemma drop_Suc_takeWhile:
  "c \<in> set s \<Longrightarrow>
     drop (Suc (length (takeWhile (\<lambda>x. x \<noteq> c) s))) s = tl (dropWhile (\<lambda>x. x \<noteq> c) s)"
  by (induction s) auto

subsection \<open>Tag values\<close>

text \<open>
  C5. Encoding a tag value with the escape table and decoding it with
  \<open>unescapeTagValue\<close> should give the value back. The decoder does not: it replaces in
  five passes, so the second byte of an escaped backslash pairs with the byte after it.
  The two-byte value backslash, \<open>s\<close> is encoded as backslash, backslash, \<open>s\<close>, which
  the second pass decodes to backslash, space.
\<close>

theorem unescapeTagValue_breaks_round_trip:
  "escapeTagValue_spec [BSL, CHR ''s''] = [BSL, BSL, CHR ''s'']
   \<and> unescapeTagValue [BSL, BSL, CHR ''s''] = [BSL, CHR '' '']
   \<and> unescapeTagValue (escapeTagValue_spec [BSL, CHR ''s'']) \<noteq> [BSL, CHR ''s'']"
  by (simp add: unescapeTagValue_def escapeTagValue_spec_def escapeChar_spec_def
        BSL_def CR_def LF_def)

text \<open>
  The round trip does hold for the values that contain no backslash: there every
  backslash of the encoded value starts an escape of the table, and no pass can pair
  bytes across two escapes.
\<close>

lemma Replace_Cons_other: "x \<noteq> a \<Longrightarrow> Replace (x # s) a b new = x # Replace s a b new"
  by (cases s) simp_all

lemma Replace_concat_map:
  "\<forall>c \<in> set s. escapeShape f c \<Longrightarrow>
     Replace (concat (map f s)) BSL b new
       = concat (map (\<lambda>c. if f c = [BSL, b] then new else f c) s)"
proof (induction s)
  case Nil
  then show ?case by simp
next
  case (Cons c s)
  then have sh: "escapeShape f c" and rest: "\<forall>c \<in> set s. escapeShape f c"
    by simp_all
  note IH = Cons.IH [OF rest]
  from sh consider c' where "f c = [c']" "c' \<noteq> BSL" | x where "f c = [BSL, x]" "x \<noteq> BSL"
    unfolding escapeShape_def by blast
  then show ?case
  proof cases
    case 1
    then show ?thesis by (simp add: Replace_Cons_other IH)
  next
    case 2
    then show ?thesis by (simp add: Replace_Cons_other IH)
  qed
qed

lemma unescapeTagValue_round_trip_without_backslash:
  assumes "BSL \<notin> set s"
  shows "unescapeTagValue (escapeTagValue_spec s) = s"
proof -
  define f1 where "f1 = (\<lambda>c. if escapeChar_spec c = [BSL, CHR '':''] then '';'' else escapeChar_spec c)"
  define f2 where "f2 = (\<lambda>c. if f1 c = [BSL, CHR ''s''] then '' '' else f1 c)"
  define f3 where "f3 = (\<lambda>c. if f2 c = [BSL, BSL] then [BSL] else f2 c)"
  define f4 where "f4 = (\<lambda>c. if f3 c = [BSL, CHR ''r''] then [CR] else f3 c)"
  define f5 where "f5 = (\<lambda>c. if f4 c = [BSL, CHR ''n''] then [LF] else f4 c)"
  have s0: "\<forall>c \<in> set s. escapeShape escapeChar_spec c"
    using assms by (auto simp: escapeShape_def escapeChar_spec_def BSL_def CR_def LF_def)
  have s1: "\<forall>c \<in> set s. escapeShape f1 c"
    using assms by (auto simp: escapeShape_def f1_def escapeChar_spec_def BSL_def CR_def LF_def)
  have s2: "\<forall>c \<in> set s. escapeShape f2 c"
    using assms by (auto simp: escapeShape_def f2_def f1_def escapeChar_spec_def BSL_def CR_def LF_def)
  have s3: "\<forall>c \<in> set s. escapeShape f3 c"
    using assms by (auto simp: escapeShape_def f3_def f2_def f1_def escapeChar_spec_def BSL_def CR_def LF_def)
  have s4: "\<forall>c \<in> set s. escapeShape f4 c"
    using assms by (auto simp: escapeShape_def f4_def f3_def f2_def f1_def escapeChar_spec_def BSL_def CR_def LF_def)
  have last: "\<forall>c \<in> set s. f5 c = [c]"
    using assms by (auto simp: f5_def f4_def f3_def f2_def f1_def escapeChar_spec_def BSL_def CR_def LF_def)
  have "unescapeTagValue (escapeTagValue_spec s) = concat (map f5 s)"
    unfolding unescapeTagValue_def escapeTagValue_spec_def Let_def
    using Replace_concat_map [OF s0, of "CHR '':''" "'';''"]
      Replace_concat_map [OF s1, of "CHR ''s''" "'' ''"]
      Replace_concat_map [OF s2, of BSL "[BSL]"]
      Replace_concat_map [OF s3, of "CHR ''r''" "[CR]"]
      Replace_concat_map [OF s4, of "CHR ''n''" "[LF]"]
    by (simp add: f1_def [symmetric] f2_def [symmetric] f3_def [symmetric] f4_def [symmetric]
          f5_def [symmetric])
  also have "\<dots> = s"
    using last by (induction s) simp_all
  finally show ?thesis .
qed

subsection \<open>Classification of ERROR text\<close>

text \<open>
  C6. \<open>AnalyzeErrorMessage\<close> tries the families in the order Permanent, Server,
  Network, Recoverable on the lower-cased text and answers with the first family that
  has a pattern occurring in it; a text in which no pattern of any family occurs is
  Recoverable, and a text is Permanent only when a Permanent pattern occurs in it.
\<close>

theorem AnalyzeErrorMessage_ordered_families:
  "AnalyzeErrorMessage toLower errorMsg =
     (if occursIn permanentPatterns (toLower errorMsg) then PermanentError
      else if occursIn serverPatterns (toLower errorMsg) then ServerError
      else if occursIn networkPatterns (toLower errorMsg) then NetworkError
      else if occursIn recoverablePatterns (toLower errorMsg) then RecoverableError
      else RecoverableError)
   \<and> (\<not> occursIn permanentPatterns (toLower errorMsg)
        \<and> \<not> occursIn serverPatterns (toLower errorMsg)
        \<and> \<not> occursIn networkPatterns (toLower errorMsg)
        \<and> \<not> occursIn recoverablePatterns (toLower errorMsg)
      \<longrightarrow> AnalyzeErrorMessage toLower errorMsg = RecoverableError)
   \<and> (AnalyzeErrorMessage toLower errorMsg = PermanentError
      \<longrightarrow> occursIn permanentPatterns (toLower errorMsg))"
  by (simp add: AnalyzeErrorMessage_def matchesAny_iff_occursIn Let_def)

theorem AnalyzeErrorMessage_ordered_families_witness:
  "\<not> occursIn permanentPatterns (ToLower_ascii ''Closing Link: bob (Quit: bye)'')
   \<and> \<not> occursIn serverPatterns (ToLower_ascii ''Closing Link: bob (Quit: bye)'')
   \<and> \<not> occursIn networkPatterns (ToLower_ascii ''Closing Link: bob (Quit: bye)'')
   \<and> \<not> occursIn recoverablePatterns (ToLower_ascii ''Closing Link: bob (Quit: bye)'')
   \<and> AnalyzeErrorMessage ToLower_ascii ''Closing Link: bob (Quit: bye)'' = RecoverableError
   \<and> occursIn permanentPatterns (ToLower_ascii ''Closing Link: You are BANNED'')
   \<and> AnalyzeErrorMessage ToLower_ascii ''Closing Link: You are BANNED'' = PermanentError"
proof -
  have low: "ToLower_ascii ''Closing Link: bob (Quit: bye)'' = ''closing link: bob (quit: bye)''"
    by code_simp
  have p: "\<not> occursIn permanentPatterns ''closing link: bob (quit: bye)''"
    unfolding occursIn_def permanentPatterns_def by code_simp
  have s: "\<not> occursIn serverPatterns ''closing link: bob (quit: bye)''"
    unfolding occursIn_def serverPatterns_def by code_simp
  have n: "\<not> occursIn networkPatterns ''closing link: bob (quit: bye)''"
    unfolding occursIn_def networkPatterns_def by code_simp
  have r: "\<not> occursIn recoverablePatterns ''closing link: bob (quit: bye)''"
    unfolding occursIn_def recoverablePatterns_def by code_simp
  have low2: "ToLower_ascii ''Closing Link: You are BANNED'' = ''closing link: you are banned''"
    by code_simp
  have b: "occursIn permanentPatterns ''closing link: you are banned''"
    unfolding occursIn_def permanentPatterns_def by code_simp
  show ?thesis
    using AnalyzeErrorMessage_ordered_families [of ToLower_ascii "''Closing Link: bob (Quit: bye)''"]
      AnalyzeErrorMessage_ordered_families [of ToLower_ascii "''Closing Link: You are BANNED''"]
      p s n r b
    by (simp add: low low2)
qed

subsection \<open>The wire parser\<close>

lemma parseCommand_Inr: "\<exists>e. parseCommand toUpper msg event = Inr e \<and> Raw e = Raw event"
  using Split_not_Nil [of "hd (SplitN2 msg '' :'')" "CHR '' ''"]
  by (auto simp: parseCommand_def Let_def split: list.splits)

lemma parseCommand_not_Malformed: "parseCommand toUpper m e \<noteq> Inl MalformedMsg"
  using parseCommand_Inr [of toUpper m e] by auto

lemma parseCommand_returns: "\<exists>e'. parseCommand toUpper m e = Inr e'"
  using parseCommand_Inr [of toUpper m e] by auto

lemma parseTags_cases:
  "msg \<noteq> [] \<Longrightarrow> parseTags msg event =
     (if hd msg = CHR ''@'' then
        (if CHR '' '' \<in> set msg
         then Inr (afterFirstSpace msg,
                   event\<lparr>Tags := fold addTag
                     (Split (take (length (takeWhile (\<lambda>x. x \<noteq> CHR '' '') msg) - 1) (drop 1 msg))
                        (CHR '';'')) Map.empty\<rparr>)
         else Inl MalformedMsg)
      else Inr (msg, event))"
  by (simp add: parseTags_def Index_char afterFirstSpace_def drop_Suc_takeWhile)

lemma parseSource_cases:
  "parseSource msg event =
     (if msg = [] then Inl IndexOutOfRange
      else if hd msg = CHR '':'' then
        (if CHR '' '' \<in> set msg
         then Inr (afterFirstSpace msg,
                   splitSource (event\<lparr>Source :=
                     take (length (takeWhile (\<lambda>x. x \<noteq> CHR '' '') msg) - 1) (drop 1 msg)\<rparr>))
         else Inl MalformedMsg)
      else Inr (msg, event))"
  by (cases msg) (simp_all add: parseSource_def Index_char afterFirstSpace_def drop_Suc_takeWhile)

lemma parseToEvent_unfold:
  "parseToEvent toUpper raw =
     (let msg = TrimSuffix (TrimSuffix raw LF) CR;
          event = \<lparr>Code = [], Raw = msg, Nick = [], Host = [], Source = [], User = [],
                   Arguments = [], Tags = Map.empty\<rparr>
      in if msg = [] then Inl MalformedMsg
         else
           (case parseTags msg event of
              Inl err \<Rightarrow> Inl err
            | Inr (msg1, event1) \<Rightarrow>
                (case parseSource msg1 event1 of
                   Inl err \<Rightarrow> Inl err
                 | Inr (msg2, event2) \<Rightarrow> parseCommand toUpper msg2 event2)))"
  by (simp add: parseToEvent_def Let_def)

text \<open>
  C4, as the claim states it: every line that keeps at least one character after
  trimming parses. The line \<open>@time=12:00\<close> keeps all its characters and is rejected,
  because the tag marker must be followed by a space somewhere in the line.
\<close>

theorem parseToEvent_rejects_nonempty_line:
  "TrimSuffix (TrimSuffix ''@time=12:00'' LF) CR = ''@time=12:00''
   \<and> length (TrimSuffix (TrimSuffix ''@time=12:00'' LF) CR) \<ge> 1
   \<and> parseToEvent ToUpper_ascii ''@time=12:00'' = Inl MalformedMsg"
  by (simp add: parseToEvent_def TrimSuffix_def CR_def LF_def parseTags_def Let_def)

text \<open>
  C4, amended. \<open>parseToEvent\<close> returns its error exactly for the trimmed lines that
  are empty, or start with the tag marker \<open>@\<close> or the source marker \<open>:\<close> and hold no
  space, or hold a tag segment followed by a source marker without a space after it.
  Every other trimmed line yields an event, whatever its length, unless it is a tag
  segment with nothing after its first space (about which nothing is said here). There
  is no minimum length: the single token \<open>PING\<close> parses.
\<close>

theorem parseToEvent_error_iff_malformed:
  "(parseToEvent toUpper raw = Inl MalformedMsg
      \<longleftrightarrow> malformedLine (TrimSuffix (TrimSuffix raw LF) CR))
   \<and> (\<not> malformedLine (TrimSuffix (TrimSuffix raw LF) CR)
       \<and> \<not> (hd (TrimSuffix (TrimSuffix raw LF) CR) = CHR ''@''
            \<and> afterFirstSpace (TrimSuffix (TrimSuffix raw LF) CR) = [])
       \<longrightarrow> (\<exists>e. parseToEvent toUpper raw = Inr e))"
proof (cases "TrimSuffix (TrimSuffix raw LF) CR = []")
  case True
  then show ?thesis
    by (simp add: parseToEvent_unfold malformedLine_def)
next
  case False
  then show ?thesis
    using parseCommand_returns [of toUpper]
    by (auto simp: parseToEvent_unfold malformedLine_def parseTags_cases parseSource_cases
          parseCommand_not_Malformed Let_def)
qed

theorem parseToEvent_error_iff_malformed_witness:
  "\<not> malformedLine (TrimSuffix (TrimSuffix (''PING'' @ [CR, LF]) LF) CR)
   \<and> \<not> (hd (TrimSuffix (TrimSuffix (''PING'' @ [CR, LF]) LF) CR) = CHR ''@''
        \<and> afterFirstSpace (TrimSuffix (TrimSuffix (''PING'' @ [CR, LF]) LF) CR) = [])
   \<and> (\<exists>e. parseToEvent ToUpper_ascii (''PING'' @ [CR, LF]) = Inr e)
   \<and> malformedLine (TrimSuffix (TrimSuffix [CR, LF] LF) CR)
   \<and> parseToEvent ToUpper_ascii [CR, LF] = Inl MalformedMsg"
  using parseToEvent_error_iff_malformed [of ToUpper_ascii "''PING'' @ [CR, LF]"]
    parseToEvent_error_iff_malformed [of ToUpper_ascii "[CR, LF]"]
  by (simp add: TrimSuffix_def CR_def LF_def malformedLine_def)

subsection \<open>The DCC chat registry\<close>

text \<open>
  C10. For a peer without an entry in the manager's map, \<open>SendDCCMessage\<close>,
  \<open>GetDCCMessage\<close> and \<open>CloseDCCChat\<close> each return the error "no active DCC chat" and
  leave the map as it was, so \<open>ListActiveDCCChats\<close> lists the same peers before and
  after.
\<close>

theorem DCC_absent_peer_error_and_registry_unchanged:
  "chats nick0 = None \<longrightarrow>
     fst (SendDCCMessage nick0 message chats) = Some (NoActiveChat nick0)
     \<and> snd (SendDCCMessage nick0 message chats) = chats
     \<and> ListActiveDCCChats (snd (SendDCCMessage nick0 message chats)) = ListActiveDCCChats chats
     \<and> snd (fst (GetDCCMessage nick0 chats)) = Some (NoActiveChat nick0)
     \<and> snd (GetDCCMessage nick0 chats) = chats
     \<and> ListActiveDCCChats (snd (GetDCCMessage nick0 chats)) = ListActiveDCCChats chats
     \<and> fst (CloseDCCChat nick0 chats) = Some (NoActiveChat nick0)
     \<and> snd (CloseDCCChat nick0 chats) = chats
     \<and> ListActiveDCCChats (snd (CloseDCCChat nick0 chats)) = ListActiveDCCChats chats"
  by (simp add: SendDCCMessage_def GetDCCMessage_def CloseDCCChat_def)

theorem DCC_absent_peer_error_and_registry_unchanged_witness:
  "[''alice'' \<mapsto> \<lparr>chatNick = ''alice'', Incoming = [], IncomingClosed = False,
                    Outgoing = [], OutgoingClosed = False, ConnClosed = False\<rparr>] ''bob'' = None
   \<and> fst (SendDCCMessage ''bob'' ''hi''
        [''alice'' \<mapsto> \<lparr>chatNick = ''alice'', Incoming = [], IncomingClosed = False,
                    Outgoing = [], OutgoingClosed = False, ConnClosed = False\<rparr>]) = Some (NoActiveChat ''bob'')
   \<and> ListActiveDCCChats (snd (CloseDCCChat ''bob''
        [''alice'' \<mapsto> \<lparr>chatNick = ''alice'', Incoming = [], IncomingClosed = False,
                    Outgoing = [], OutgoingClosed = False, ConnClosed = False\<rparr>])) = {''alice''}"
  using DCC_absent_peer_error_and_registry_unchanged [of
      "[''alice'' \<mapsto> \<lparr>chatNick = ''alice'', Incoming = [], IncomingClosed = False,
                    Outgoing = [], OutgoingClosed = False, ConnClosed = False\<rparr>]" "''bob''" "''hi''"]
  by (simp add: ListActiveDCCChats_def)

subsection \<open>Event dispatch\<close>

lemma ctcpRewrite_framed:
  assumes "Code e = ''PRIVMSG''" and "Arguments e = args @ [X01 # body @ [X01]]" and "body \<noteq> []"
  shows "ctcpRewrite e =
     Some (e\<lparr>Code :=
               (if body = ''VERSION'' then ''CTCP_VERSION''
                else if body = ''TIME'' then ''CTCP_TIME''
                else if prefix ''PING'' body then ''CTCP_PING''
                else if body = ''USERINFO'' then ''CTCP_USERINFO''
                else if body = ''CLIENTINFO'' then ''CTCP_CLIENTINFO''
                else if prefix ''ACTION'' body then ''CTCP_ACTION''
                else ''CTCP''),
             Arguments := args @
               [if body \<noteq> ''VERSION'' \<and> body \<noteq> ''TIME'' \<and> \<not> prefix ''PING'' body \<and> body \<noteq> ''USERINFO'' \<and> body \<noteq> ''CLIENTINFO'' \<and> prefix ''ACTION'' body
                then (if length body > 6 then drop 7 body else []) else body]\<rparr>)"
proof -
  have msg: "Message e = X01 # body @ [X01]"
    using assms(2) by (simp add: Message_def)
  have li: "LastIndex (X01 # body @ [X01]) [X01] = Some (Suc (length body))"
    using LastIndex_snoc [of "X01 # body" X01] by simp
  have len: "length (X01 # body @ [X01]) > 2"
    using assms(3) by (cases body) simp_all
  show ?thesis
    using assms(1,2) len
    by (simp add: ctcpRewrite_def msg li Let_def HasPrefix_def del: LastIndex.simps)
qed

text \<open>
  C9. When \<open>RunCallbacks\<close> is given a PRIVMSG whose last argument is \<open>VERSION\<close>
  between two framing markers, the handlers see the code \<open>CTCP_VERSION\<close> and the
  payload \<open>VERSION\<close> without the markers, and the handlers started are those registered
  for \<open>CTCP_VERSION\<close> and for the wildcard. A framed payload that is none of VERSION,
  TIME, USERINFO, CLIENTINFO and starts with neither PING nor ACTION gets the code
  \<open>CTCP\<close>, again with the markers stripped.
\<close>

theorem RunCallbacks_reclassifies_CTCP:
  "(Code e = ''PRIVMSG'' \<and> Arguments e = args @ [X01 # ''VERSION'' @ [X01]]
      \<longrightarrow> RunCallbacks events e =
            Some (e\<lparr>Code := ''CTCP_VERSION'', Arguments := args @ [''VERSION'']\<rparr>,
                  callbacksFor events ''CTCP_VERSION''))
   \<and> (Code e = ''PRIVMSG'' \<and> Arguments e = args @ [X01 # body @ [X01]] \<and> body \<noteq> []
       \<and> body \<noteq> ''VERSION'' \<and> body \<noteq> ''TIME'' \<and> \<not> prefix ''PING'' body
       \<and> body \<noteq> ''USERINFO'' \<and> body \<noteq> ''CLIENTINFO'' \<and> \<not> prefix ''ACTION'' body
      \<longrightarrow> RunCallbacks events e =
            Some (e\<lparr>Code := ''CTCP'', Arguments := args @ [body]\<rparr>,
                  callbacksFor events ''CTCP''))"
proof (intro conjI impI)
  assume a: "Code e = ''PRIVMSG'' \<and> Arguments e = args @ [X01 # ''VERSION'' @ [X01]]"
  show "RunCallbacks events e =
            Some (e\<lparr>Code := ''CTCP_VERSION'', Arguments := args @ [''VERSION'']\<rparr>,
                  callbacksFor events ''CTCP_VERSION'')"
    using ctcpRewrite_framed [of e args "''VERSION''"] a
    by (simp add: RunCallbacks_def)
next
  assume a: "Code e = ''PRIVMSG'' \<and> Arguments e = args @ [X01 # body @ [X01]] \<and> body \<noteq> []
       \<and> body \<noteq> ''VERSION'' \<and> body \<noteq> ''TIME'' \<and> \<not> prefix ''PING'' body
       \<and> body \<noteq> ''USERINFO'' \<and> body \<noteq> ''CLIENTINFO'' \<and> \<not> prefix ''ACTION'' body"
  show "RunCallbacks events e =
            Some (e\<lparr>Code := ''CTCP'', Arguments := args @ [body]\<rparr>,
                  callbacksFor events ''CTCP'')"
    using ctcpRewrite_framed [of e args body] a
    by (simp add: RunCallbacks_def)
qed

theorem RunCallbacks_reclassifies_CTCP_witness:
  "Code \<lparr>Code = ''PRIVMSG'', Raw = [], Nick = ''alice'', Host = ''h'', Source = ''alice!u@h'', User = ''u'',
           Arguments = [''bob''] @ [X01 # ''VERSION'' @ [X01]], Tags = Map.empty\<rparr> = ''PRIVMSG''
   \<and> map_option (\<lambda>(ev, hs). (Code ev, Arguments ev, dom hs))
        (RunCallbacks [''CTCP_VERSION'' \<mapsto> [0 \<mapsto> ()], ''PRIVMSG'' \<mapsto> [1 \<mapsto> ()], ''*'' \<mapsto> [2 \<mapsto> ()]]
           \<lparr>Code = ''PRIVMSG'', Raw = [], Nick = ''alice'', Host = ''h'', Source = ''alice!u@h'', User = ''u'',
           Arguments = [''bob''] @ [X01 # ''VERSION'' @ [X01]], Tags = Map.empty\<rparr>)
       = Some (''CTCP_VERSION'', [''bob'', ''VERSION''], {0, 2})
   \<and> ''FINGER'' \<noteq> [] \<and> ''FINGER'' \<noteq> ''VERSION'' \<and> ''FINGER'' \<noteq> ''TIME'' \<and> \<not> prefix ''PING'' ''FINGER''
   \<and> ''FINGER'' \<noteq> ''USERINFO'' \<and> ''FINGER'' \<noteq> ''CLIENTINFO'' \<and> \<not> prefix ''ACTION'' ''FINGER''
   \<and> map_option (\<lambda>(ev, hs). (Code ev, Arguments ev, dom hs))
        (RunCallbacks [''CTCP_VERSION'' \<mapsto> [0 \<mapsto> ()], ''PRIVMSG'' \<mapsto> [1 \<mapsto> ()], ''*'' \<mapsto> [2 \<mapsto> ()]]
           \<lparr>Code = ''PRIVMSG'', Raw = [], Nick = ''alice'', Host = ''h'', Source = ''alice!u@h'', User = ''u'',
           Arguments = [''bob''] @ [X01 # ''FINGER'' @ [X01]], Tags = Map.empty\<rparr>)
       = Some (''CTCP'', [''bob'', ''FINGER''], {2})"
  using RunCallbacks_reclassifies_CTCP [of
      "\<lparr>Code = ''PRIVMSG'', Raw = [], Nick = ''alice'', Host = ''h'', Source = ''alice!u@h'', User = ''u'',
           Arguments = [''bob''] @ [X01 # ''VERSION'' @ [X01]], Tags = Map.empty\<rparr>"
      "[''bob'']"
      "[''CTCP_VERSION'' \<mapsto> [0 \<mapsto> ()], ''PRIVMSG'' \<mapsto> [1 \<mapsto> ()], ''*'' \<mapsto> [2 \<mapsto> ()]]" "''FINGER''"]
    RunCallbacks_reclassifies_CTCP [of
      "\<lparr>Code = ''PRIVMSG'', Raw = [], Nick = ''alice'', Host = ''h'', Source = ''alice!u@h'', User = ''u'',
           Arguments = [''bob''] @ [X01 # ''FINGER'' @ [X01]], Tags = Map.empty\<rparr>"
      "[''bob'']"
      "[''CTCP_VERSION'' \<mapsto> [0 \<mapsto> ()], ''PRIVMSG'' \<mapsto> [1 \<mapsto> ()], ''*'' \<mapsto> [2 \<mapsto> ()]]" "''FINGER''"]
  by (simp add: callbacksFor_def insert_commute)

subsection \<open>The identity state machine\<close>

lemma Connection_Nick_keeps_current:
  "nickcurrent (Connection_Nick now n irc) = nickcurrent irc"
  by (simp add: Connection_Nick_def SendRaw_def Let_def)

lemma callback_484_keeps_current:
  "nickcurrent (callback_484 now e irc) = nickcurrent irc"
  by (simp add: callback_484_def)

lemma nickRejected_changes_current:
  "length (Arguments e) > 1 \<Longrightarrow> Arguments e ! 1 = nick irc \<Longrightarrow>
     nickcurrent (nickRejected errText now e irc) \<noteq> nickcurrent irc"
  by (simp add: nickRejected_def modifyNick_def SendRaw_def Let_def)

lemma callback_NICK_overwrites_desired:
  "Nick e = nickcurrent irc \<Longrightarrow> Message e \<noteq> [] \<Longrightarrow>
     nickcurrent (callback_NICK now e irc) = Message e
     \<and> nick (callback_NICK now e irc) = Message e
     \<and> \<not> nickChangeInProgress (callback_NICK now e irc)
     \<and> nickError (callback_NICK now e irc) = []"
  by (simp add: callback_NICK_def Let_def)

lemma callback_NICK_earlier_keeps_desired:
  "Nick e = nickcurrent irc \<Longrightarrow> Message e \<noteq> [] \<Longrightarrow> nick irc \<noteq> nickcurrent irc \<Longrightarrow>
     nickcurrent (callback_NICK_earlier now e irc) = Message e
     \<and> nick (callback_NICK_earlier now e irc) = nick irc
     \<and> nickError (callback_NICK_earlier now e irc) = []"
  by (simp add: callback_NICK_earlier_def Let_def)

text \<open>
  C1. The current nickname should change only on the 001 reply or on a NICK
  notification from the current nickname. In the session made by \<open>IRC("bob", "u")\<close>,
  connected, welcomed with 001 as \<open>bob\<close>, and asked by \<open>Nick("alice")\<close> for another name,
  \<open>GetNick\<close> answers \<open>bob\<close>. The reply 433 for \<open>alice\<close> then makes it answer \<open>bob_\<close>: a
  rejection has rewritten the current nickname.
\<close>

theorem rejection_433_changes_current_nick:
  "map_option GetNick
     (Option.bind (IRC 0 ''bob'' ''u'')
        (\<lambda>irc. run ToUpper_ascii
           [(1, Line '':irc.example.net 001 bob :Welcome''),
            (2, CallNick ''alice'')]
           (snd (Connect Connects irc)))) = Some ''bob''
   \<and> map_option GetNick
     (Option.bind (IRC 0 ''bob'' ''u'')
        (\<lambda>irc. run ToUpper_ascii
           [(1, Line '':irc.example.net 001 bob :Welcome''),
            (2, CallNick ''alice''),
            (3, Line '':irc.example.net 433 bob alice :Nickname is already in use'')]
           (snd (Connect Connects irc)))) = Some ''bob_''"
  by code_simp

text \<open>
  C2. On 433 for the desired nickname \<open>bob\<close> the alternative \<open>bob_\<close> should become the
  pending nickname and the current one should stay. Before registration, in the session
  made by \<open>IRC("bob", "u")\<close> and connected, the line \<open>433 * bob :Nickname is already in
  use\<close> sends \<open>NICK bob_\<close>, but it stores \<open>bob_\<close> as the current nickname and leaves the
  pending nickname at \<open>bob\<close>.
\<close>

theorem rejection_433_stores_alternative_as_current:
  "map_option (\<lambda>irc. (nick irc, GetNick irc, nickPending irc, pwrite irc))
     (Option.bind (IRC 0 ''bob'' ''u'') (\<lambda>irc. Some (snd (Connect Connects irc))))
   = Some (''bob'', ''bob'', ''bob'',
           [''NICK bob'' @ [CR, LF], ''USER u 0 * :u'' @ [CR, LF]])
   \<and> map_option (\<lambda>irc. (nick irc, GetNick irc, nickPending irc, pwrite irc))
     (Option.bind (IRC 0 ''bob'' ''u'')
        (\<lambda>irc. run ToUpper_ascii [(1, Line ''433 * bob :Nickname is already in use'')]
                 (snd (Connect Connects irc))))
   = Some (''bob'', ''bob_'', ''bob'',
           [''NICK bob'' @ [CR, LF], ''USER u 0 * :u'' @ [CR, LF], ''NICK bob_'' @ [CR, LF]])"
  by code_simp

text \<open>
  C3. A NICK notification from the current nickname should leave a desired nickname
  that differs from the old current one as it is. The session is welcomed as \<open>bob\<close>;
  \<open>Nick("bobby")\<close> sends its request, and \<open>Nick("alice")\<close> one second later falls in
  the 30 second window, so it only records \<open>alice\<close> as desired. When the server
  confirms \<open>bobby\<close>, the callback sets the current nickname to \<open>bobby\<close>, clears the
  change in progress and the error, and overwrites the desired \<open>alice\<close> with \<open>bobby\<close>.
\<close>

theorem NICK_callback_overwrites_diverged_desired:
  "map_option (\<lambda>irc. (nick irc, GetNick irc, nickChangeInProgress irc, nickError irc))
     (Option.bind (IRC 0 ''bob'' ''u'')
        (\<lambda>irc. run ToUpper_ascii
           [(1 * Second, Line '':irc.example.net 001 bob :Welcome''),
            (10 * Second, CallNick ''bobby''),
            (11 * Second, CallNick ''alice'')]
           (snd (Connect Connects irc))))
     = Some (''alice'', ''bob'', True, [])
   \<and> map_option (\<lambda>irc. (nick irc, GetNick irc, nickChangeInProgress irc, nickError irc))
     (Option.bind (IRC 0 ''bob'' ''u'')
        (\<lambda>irc. run ToUpper_ascii
           [(1 * Second, Line '':irc.example.net 001 bob :Welcome''),
            (10 * Second, CallNick ''bobby''),
            (11 * Second, CallNick ''alice''),
            (12 * Second, Line '':bob!u@h NICK :bobby'')]
           (snd (Connect Connects irc))))
     = Some (''bobby'', ''bobby'', False, [])"
  by code_simp

subsection \<open>Registration on connecting\<close>

lemma capRequests_no_registration:
  "m \<in> set (capRequests listed requested) \<Longrightarrow> \<not> prefix ''NICK '' m \<and> \<not> prefix ''USER '' m"
  by (auto simp: capRequests_def split: if_splits)

lemma filter_capRequests:
  "filter (\<lambda>m. prefix ''NICK '' m) (capRequests listed requested) = []"
  "filter (\<lambda>m. prefix ''USER '' m) (capRequests listed requested) = []"
  using capRequests_no_registration by (auto simp: filter_empty_conv)


lemma registerOnLS_effect:
  "nickLines (registerOnLS irc) = (if sentRegistration irc then nickLines irc else Suc (nickLines irc))"
  "userLines (registerOnLS irc) = (if sentRegistration irc then userLines irc else Suc (userLines irc))"
  "sentRegistration (registerOnLS irc)"
  "RequestCaps (registerOnLS irc) = RequestCaps irc"
  by (simp_all add: registerOnLS_def sendRegistration_def nickLines_def userLines_def Let_def)

lemma registerFallback_effect:
  "nickLines (registerFallback irc) = (if sentRegistration irc then nickLines irc else Suc (nickLines irc))"
  "userLines (registerFallback irc) = (if sentRegistration irc then userLines irc else Suc (userLines irc))"
  "sentRegistration (registerFallback irc)"
  "RequestCaps (registerFallback irc) = RequestCaps irc"
  by (simp_all add: registerFallback_def sendRegistration_def nickLines_def userLines_def Let_def)

lemma registerImmediately_effect:
  "nickLines (registerImmediately irc) = (if sentRegistration irc then nickLines irc else Suc (nickLines irc))"
  "userLines (registerImmediately irc) = (if sentRegistration irc then userLines irc else Suc (userLines irc))"
  "sentRegistration (registerImmediately irc)"
  "RequestCaps (registerImmediately irc) = RequestCaps irc"
  by (simp_all add: registerImmediately_def sendRegistration_def nickLines_def userLines_def Let_def)

lemma callback_CAP_effect:
  "nickLines (callback_CAP e irc) = nickLines irc \<and> userLines (callback_CAP e irc) = userLines irc
     \<and> sentRegistration (callback_CAP e irc) = sentRegistration irc
   \<or> \<not> sentRegistration irc \<and> nickLines (callback_CAP e irc) = Suc (nickLines irc)
     \<and> userLines (callback_CAP e irc) = Suc (userLines irc) \<and> sentRegistration (callback_CAP e irc)"
proof -
  define irc1 where "irc1 = irc\<lparr>pwrite := pwrite irc @
           capRequests (Split (Arguments e ! 2) (CHR '' '')) (RequestCaps irc)\<rparr>"
  have same: "nickLines irc1 = nickLines irc" "userLines irc1 = userLines irc"
      "sentRegistration irc1 = sentRegistration irc"
    by (simp_all add: irc1_def nickLines_def userLines_def filter_capRequests)
  consider (short) "length (Arguments e) < 2"
    | (ls3) "\<not> length (Arguments e) < 2" "Arguments e ! 1 = ''LS''" "length (Arguments e) \<ge> 3"
    | (ls2) "\<not> length (Arguments e) < 2" "Arguments e ! 1 = ''LS''" "\<not> length (Arguments e) \<ge> 3"
    | (other) "\<not> length (Arguments e) < 2" "Arguments e ! 1 \<noteq> ''LS''"
    by blast
  then show ?thesis
  proof cases
    case short
    then have "callback_CAP e irc = irc" by (simp add: callback_CAP_def)
    then show ?thesis by simp
  next
    case ls3
    then have "callback_CAP e irc = registerOnLS irc1"
      by (simp add: callback_CAP_def irc1_def Let_def)
    then show ?thesis using same by (simp add: registerOnLS_effect)
  next
    case ls2
    then have "callback_CAP e irc = registerOnLS irc"
      by (simp add: callback_CAP_def Let_def)
    then show ?thesis by (simp add: registerOnLS_effect)
  next
    case other
    then have "callback_CAP e irc = irc" by (simp add: callback_CAP_def Let_def)
    then show ?thesis by simp
  qed
qed

lemma callback_CAP_RequestCaps: "RequestCaps (callback_CAP e irc) = RequestCaps irc"
  by (simp add: callback_CAP_def Let_def registerOnLS_effect)

lemma fire_RequestCaps: "RequestCaps (fire toUpper t irc) = RequestCaps irc"
  by (simp add: fire_def callback_CAP_RequestCaps registerFallback_effect
        split: trigger.splits sum.splits)

lemma callback_CAP_attemptState: "attemptState irc \<Longrightarrow> attemptState (callback_CAP e irc)"
  using callback_CAP_effect [of e irc] by (auto simp: attemptState_def)

lemma callback_CAP_staleState: "staleState irc \<Longrightarrow> staleState (callback_CAP e irc)"
  using callback_CAP_effect [of e irc] by (auto simp: staleState_def)

lemma callback_CAP_sent_mono: "sentRegistration irc \<Longrightarrow> sentRegistration (callback_CAP e irc)"
  using callback_CAP_effect [of e irc] by auto

lemma registerFallback_attemptState: "attemptState irc \<Longrightarrow> attemptState (registerFallback irc)"
  by (auto simp: attemptState_def registerFallback_effect)

lemma registerFallback_staleState: "staleState irc \<Longrightarrow> staleState (registerFallback irc)"
  by (auto simp: staleState_def registerFallback_effect)

lemma fire_attemptState: "attemptState irc \<Longrightarrow> attemptState (fire toUpper t irc)"
  by (simp add: fire_def callback_CAP_attemptState registerFallback_attemptState
        split: trigger.splits sum.splits)

lemma fire_staleState: "staleState irc \<Longrightarrow> staleState (fire toUpper t irc)"
  by (simp add: fire_def callback_CAP_staleState registerFallback_staleState
        split: trigger.splits sum.splits)

lemma fire_sent_mono: "sentRegistration irc \<Longrightarrow> sentRegistration (fire toUpper t irc)"
  by (simp add: fire_def callback_CAP_sent_mono registerFallback_effect
        split: trigger.splits sum.splits)

lemma fire_Fallback_sends:
  "RequestCaps irc \<noteq> [] \<Longrightarrow> sentRegistration (fire toUpper FallbackTimer irc)"
  by (simp add: fire_def registerFallback_effect)


lemma Connect_reset_keeps:
  "sentRegistration (Connect_reset irc) = sentRegistration irc"
  "UseSASL (Connect_reset irc) = UseSASL irc"
  by (simp_all add: Connect_reset_def)

lemma Connect_open_effect:
  "nickLines (Connect_open irc) = 0"
  "userLines (Connect_open irc) = 0"
  "sentRegistration (Connect_open irc) = sentRegistration irc"
  "UseSASL (Connect_open irc) = UseSASL irc"
  by (simp_all add: Connect_open_def nickLines_def userLines_def Let_def)

lemma negotiateCaps_forms:
  "(\<not> UseSASL irc \<longrightarrow>
      negotiateCaps irc = registerImmediately (irc\<lparr>RequestCaps := []\<rparr>))
   \<and> (UseSASL irc \<longrightarrow>
        nickLines (negotiateCaps irc) = nickLines irc
        \<and> userLines (negotiateCaps irc) = userLines irc
        \<and> sentRegistration (negotiateCaps irc) = sentRegistration irc
        \<and> RequestCaps (negotiateCaps irc) = [''sasl''])"
  by (simp add: negotiateCaps_def Let_def nickLines_def userLines_def)

lemma negotiateCaps_first:
  assumes "\<not> sentRegistration irc" "nickLines irc = 0" "userLines irc = 0"
  shows "attemptState (negotiateCaps irc)"
    and "\<not> UseSASL irc \<Longrightarrow> sentRegistration (negotiateCaps irc)"
    and "UseSASL irc \<Longrightarrow> RequestCaps (negotiateCaps irc) \<noteq> []"
proof -
  have upd: "nickLines (irc\<lparr>RequestCaps := []\<rparr>) = nickLines irc"
    "userLines (irc\<lparr>RequestCaps := []\<rparr>) = userLines irc"
    by (simp_all add: nickLines_def userLines_def)
  show "attemptState (negotiateCaps irc)"
    using negotiateCaps_forms [of irc] assms upd
    by (cases "UseSASL irc") (simp_all add: attemptState_def registerImmediately_effect)
  show "\<not> UseSASL irc \<Longrightarrow> sentRegistration (negotiateCaps irc)"
    using negotiateCaps_forms [of irc] by (simp add: registerImmediately_effect)
  show "UseSASL irc \<Longrightarrow> RequestCaps (negotiateCaps irc) \<noteq> []"
    using negotiateCaps_forms [of irc] by simp
qed

lemma negotiateCaps_stale:
  assumes "sentRegistration irc" "nickLines irc = 0" "userLines irc = 0"
  shows "staleState (negotiateCaps irc)"
proof -
  have upd: "nickLines (irc\<lparr>RequestCaps := []\<rparr>) = nickLines irc"
    "userLines (irc\<lparr>RequestCaps := []\<rparr>) = userLines irc"
    by (simp_all add: nickLines_def userLines_def)
  show ?thesis
    using negotiateCaps_forms [of irc] assms upd
    by (cases "UseSASL irc") (simp_all add: staleState_def registerImmediately_effect)
qed

lemma fold_fire_attemptState: "attemptState irc \<Longrightarrow> attemptState (fold (fire toUpper) ts irc)"
  by (induction ts arbitrary: irc) (simp_all add: fire_attemptState)

lemma fold_fire_staleState: "staleState irc \<Longrightarrow> staleState (fold (fire toUpper) ts irc)"
  by (induction ts arbitrary: irc) (simp_all add: fire_staleState)

lemma fold_fire_sent_mono:
  "sentRegistration irc \<Longrightarrow> sentRegistration (fold (fire toUpper) ts irc)"
  by (induction ts arbitrary: irc) (simp_all add: fire_sent_mono)

lemma fold_fire_RequestCaps: "RequestCaps (fold (fire toUpper) ts irc) = RequestCaps irc"
  by (induction ts arbitrary: irc) (simp_all add: fire_RequestCaps)

lemma fold_fire_Fallback:
  "RequestCaps irc \<noteq> [] \<Longrightarrow> FallbackTimer \<in> set ts \<Longrightarrow>
     sentRegistration (fold (fire toUpper) ts irc)"
proof (induction ts arbitrary: irc)
  case Nil
  then show ?case by simp
next
  case (Cons t ts)
  show ?case
  proof (cases "t = FallbackTimer")
    case True
    then show ?thesis
      using Cons.prems(1) by (simp add: fire_Fallback_sends fold_fire_sent_mono)
  next
    case False
    then show ?thesis
      using Cons.prems Cons.IH [of "fire toUpper t irc"] by (simp add: fire_RequestCaps)
  qed
qed

lemma first_attempt_registers_once:
  assumes "\<not> sentRegistration irc" "env \<noteq> DialFails" "\<not> UseSASL irc \<or> FallbackTimer \<in> set ts"
  shows "nickLines (fold (fire toUpper) ts (snd (Connect env irc))) = 1
       \<and> userLines (fold (fire toUpper) ts (snd (Connect env irc))) = 1
       \<and> sentRegistration (fold (fire toUpper) ts (snd (Connect env irc)))"
proof -
  define irc3 where "irc3 = Connect_open (Connect_reset irc)"
  have c: "snd (Connect env irc) = negotiateCaps irc3"
    using assms(2) by (simp add: Connect_def irc3_def Let_def)
  have pre: "\<not> sentRegistration irc3" "nickLines irc3 = 0" "userLines irc3 = 0"
      "UseSASL irc3 = UseSASL irc"
    using assms(1) by (simp_all add: irc3_def Connect_open_effect Connect_reset_keeps)
  have st: "attemptState (fold (fire toUpper) ts (negotiateCaps irc3))"
    using negotiateCaps_first(1) [OF pre(1,2,3)] by (rule fold_fire_attemptState)
  have sent: "sentRegistration (fold (fire toUpper) ts (negotiateCaps irc3))"
  proof (cases "UseSASL irc")
    case False
    then show ?thesis
      using negotiateCaps_first(2) [OF pre(1,2,3)] pre(4) by (simp add: fold_fire_sent_mono)
  next
    case True
    then show ?thesis
      using negotiateCaps_first(3) [OF pre(1,2,3)] pre(4) assms(3) by (simp add: fold_fire_Fallback)
  qed
  show ?thesis
    using st sent by (simp add: c attemptState_def)
qed

lemma later_attempt_never_registers:
  assumes "sentRegistration irc" "env \<noteq> DialFails"
  shows "nickLines (fold (fire toUpper) ts (snd (Connect env irc))) = 0
       \<and> userLines (fold (fire toUpper) ts (snd (Connect env irc))) = 0"
proof -
  define irc3 where "irc3 = Connect_open (Connect_reset irc)"
  have c: "snd (Connect env irc) = negotiateCaps irc3"
    using assms(2) by (simp add: Connect_def irc3_def Let_def)
  have pre: "sentRegistration irc3" "nickLines irc3 = 0" "userLines irc3 = 0"
    using assms(1) by (simp_all add: irc3_def Connect_open_effect Connect_reset_keeps)
  have "staleState (fold (fire toUpper) ts (negotiateCaps irc3))"
    using negotiateCaps_stale [OF pre] by (rule fold_fire_staleState)
  then show ?thesis by (simp add: c staleState_def)
qed

lemma Reconnect_never_registers:
  assumes "sentRegistration irc" "env \<noteq> DialFails"
  shows "nickLines (fold (fire toUpper) ts (snd (Reconnect env irc))) = 0
       \<and> userLines (fold (fire toUpper) ts (snd (Reconnect env irc))) = 0"
  unfolding Reconnect_def
  by (rule later_attempt_never_registers) (simp_all add: assms)

text \<open>
  C8. Every call of \<open>Connect\<close> should put the \<open>NICK\<close> and \<open>USER\<close> lines on the queue
  exactly once. The first call does. \<open>Connect\<close> never lowers \<open>sentRegistration\<close>, so
  the call that \<open>Reconnect\<close> makes on the same session finds the flag up and sends
  neither line: with the default configuration its queue stays empty, and with SASL
  on it holds the capability lines only, whatever the CAP reply and the fallback timer
  do.
\<close>

theorem registration_not_sent_on_reconnect:
  "map_option
     (\<lambda>irc. (nickLines (snd (Connect Connects irc)),
             userLines (snd (Connect Connects irc)),
             nickLines (snd (Reconnect Connects (snd (Connect Connects irc)))),
             userLines (snd (Reconnect Connects (snd (Connect Connects irc))))))
     (IRC 0 ''bob'' ''u'')
   = Some (1, 1, 0, 0)
   \<and> map_option
     (\<lambda>irc. (nickLines
               (fold (fire ToUpper_ascii) [ServerLine ''CAP * LS :sasl'', FallbackTimer]
                  (snd (Connect Connects (irc\<lparr>UseSASL := True\<rparr>)))),
             nickLines
               (fold (fire ToUpper_ascii) [ServerLine ''CAP * LS :sasl'', FallbackTimer]
                  (snd (Reconnect Connects
                     (fold (fire ToUpper_ascii) [ServerLine ''CAP * LS :sasl'', FallbackTimer]
                        (snd (Connect Connects (irc\<lparr>UseSASL := True\<rparr>)))))))))
     (IRC 0 ''bob'' ''u'')
   = Some (1, 0)"
proof -
  obtain irc where irc: "IRC 0 ''bob'' ''u'' = Some irc"
      and fresh: "\<not> sentRegistration irc" "\<not> UseSASL irc"
    by (simp add: IRC_def)
  have first: "nickLines (snd (Connect Connects irc)) = 1
      \<and> userLines (snd (Connect Connects irc)) = 1
      \<and> sentRegistration (snd (Connect Connects irc))"
    using first_attempt_registers_once [of irc Connects "[]" ToUpper_ascii] fresh by simp
  have second: "nickLines (snd (Reconnect Connects (snd (Connect Connects irc)))) = 0
      \<and> userLines (snd (Reconnect Connects (snd (Connect Connects irc)))) = 0"
    using Reconnect_never_registers [of "snd (Connect Connects irc)" Connects ToUpper_ascii "[]"]
      first by simp
  define ts where "ts = [ServerLine ''CAP * LS :sasl'', FallbackTimer]"
  define one where "one = fold (fire ToUpper_ascii) ts (snd (Connect Connects (irc\<lparr>UseSASL := True\<rparr>)))"
  have sasl1: "nickLines one = 1 \<and> sentRegistration one"
    using first_attempt_registers_once [of "irc\<lparr>UseSASL := True\<rparr>" Connects ts ToUpper_ascii] fresh
    by (simp add: one_def ts_def)
  have sasl2: "nickLines (fold (fire ToUpper_ascii) ts (snd (Reconnect Connects one))) = 0"
    using Reconnect_never_registers [of one Connects ToUpper_ascii ts] sasl1 by simp
  show ?thesis
    using first second sasl1 sasl2
    by (simp add: irc one_def [symmetric] ts_def [symmetric])
qed

subsection \<open>The control loop\<close>

lemma negotiateCaps_keeps:
  "quit (negotiateCaps irc) = quit irc"
  "recoverableReconnects (negotiateCaps irc) = recoverableReconnects irc"
  "MaxRecoverableReconnects (negotiateCaps irc) = MaxRecoverableReconnects irc"
  "HandleErrorAsDisconnect (negotiateCaps irc) = HandleErrorAsDisconnect irc"
  by (simp_all add: negotiateCaps_def registerImmediately_def sendRegistration_def Let_def)

lemma Connect_keeps:
  "quit (snd (Connect env irc)) = quit irc"
  "recoverableReconnects (snd (Connect env irc)) = recoverableReconnects irc"
  "MaxRecoverableReconnects (snd (Connect env irc)) = MaxRecoverableReconnects irc"
  "HandleErrorAsDisconnect (snd (Connect env irc)) = HandleErrorAsDisconnect irc"
  by (simp_all add: Connect_def Connect_reset_def Connect_open_def negotiateCaps_keeps Let_def)

lemma Reconnect_keeps:
  "quit (snd (Reconnect env irc)) = quit irc"
  "recoverableReconnects (snd (Reconnect env irc)) = recoverableReconnects irc"
  "MaxRecoverableReconnects (snd (Reconnect env irc)) = MaxRecoverableReconnects irc"
  "HandleErrorAsDisconnect (snd (Reconnect env irc)) = HandleErrorAsDisconnect irc"
  by (simp_all add: Reconnect_def Connect_keeps)

text \<open>
  When the inner loop of \<open>Loop\<close> is left through its \<open>break\<close>, the counter of
  recoverable reconnects is zero again.
\<close>

lemma reconnectLoop_resets:
  "reconnectLoop errStr envs irc n = Some (envs', irc', n') \<Longrightarrow> \<not> quit irc \<Longrightarrow>
     recoverableReconnects irc' = 0 \<and> \<not> quit irc'
     \<and> MaxRecoverableReconnects irc' = MaxRecoverableReconnects irc
     \<and> HandleErrorAsDisconnect irc' = HandleErrorAsDisconnect irc"
proof (induction envs arbitrary: irc n)
  case Nil
  then show ?case by simp
next
  case (Cons env envs)
  define irc1 where "irc1 = (if Contains errStr ''RecoverableError''
                     then irc\<lparr>recoverableReconnects := recoverableReconnects irc + 1\<rparr>
                     else irc)"
  have q1: "\<not> quit irc1" "MaxRecoverableReconnects irc1 = MaxRecoverableReconnects irc"
     "HandleErrorAsDisconnect irc1 = HandleErrorAsDisconnect irc"
    using Cons.prems(2) by (simp_all add: irc1_def)
  obtain ok irc2 where r: "Reconnect env irc1 = (ok, irc2)"
    by (cases "Reconnect env irc1")
  have k: "\<not> quit irc2" "MaxRecoverableReconnects irc2 = MaxRecoverableReconnects irc"
     "HandleErrorAsDisconnect irc2 = HandleErrorAsDisconnect irc"
    using Reconnect_keeps [of env irc1] q1 r by simp_all
  show ?case
  proof (cases ok)
    case True
    then show ?thesis
      using Cons.prems r k by (auto simp: irc1_def [symmetric] Let_def)
  next
    case False
    then have "reconnectLoop errStr envs irc2 (Suc n) = Some (envs', irc', n')"
      using Cons.prems r by (simp add: irc1_def [symmetric] Let_def)
    then show ?thesis
      using Cons.IH [of irc2 "Suc n"] k by simp
  qed
qed

text \<open>
  So the test of the ceiling at the head of \<open>Loop\<close> always reads a counter of zero: a
  run that starts with the counter at zero and receives no permanent error never
  returns, whatever \<open>MaxRecoverableReconnects\<close> is.
\<close>

lemma Loop_never_stops_at_ceiling:
  "\<not> quit irc \<Longrightarrow> recoverableReconnects irc = 0 \<Longrightarrow>
   \<forall>e \<in> set errs. \<not> Contains e ''Received permanent ERROR from server:'' \<Longrightarrow>
   \<not> hasReturned (Loop errs envs irc n)"
proof (induction errs arbitrary: envs irc n)
  case Nil
  then show ?case by simp
next
  case (Cons errStr errs)
  show ?case
  proof (cases "reconnectLoop errStr envs irc n")
    case None
    then show ?thesis using Cons.prems by simp
  next
    case (Some r)
    obtain envs' irc' n' where r: "r = (envs', irc', n')"
      by (cases r)
    have "recoverableReconnects irc' = 0 \<and> \<not> quit irc'"
      using reconnectLoop_resets [of errStr envs irc n envs' irc' n'] Some r Cons.prems(1)
      by simp
    then have "\<not> hasReturned (Loop errs envs' irc' n')"
      using Cons.IH [of irc' envs' n'] Cons.prems(3) by simp
    then show ?thesis
      using Cons.prems Some r by simp
  qed
qed

text \<open>
  C7. With \<open>MaxRecoverableReconnects = 3\<close> the fourth Recoverable failure in a row
  should make \<open>Loop\<close> return without a fourth reconnect. The session made by
  \<open>IRC("bob", "u")\<close> has that ceiling; the line \<open>ERROR :Closing Link: bob (Ping
  timeout)\<close> is classified Recoverable and posted as such. When four such errors arrive
  and every reconnect succeeds, \<open>Loop\<close> calls \<open>Reconnect\<close> four times and goes on
  waiting for the next error: each successful reconnect has set the counter back to
  zero. Nor does the ceiling bound the attempts after one failure: when five attempts
  in a row fail and the sixth succeeds, \<open>Loop\<close> has called \<open>Reconnect\<close> six times.
\<close>

theorem Loop_reconnects_on_fourth_recoverable_failure:
  "map_option
     (\<lambda>irc. (MaxRecoverableReconnects irc,
             readLoop_posts ToUpper_ascii ToLower_ascii
               ''ERROR :Closing Link: bob (Ping timeout)'' irc))
     (IRC 0 ''bob'' ''u'')
   = Some (3, Some ''Received RecoverableError from server: Closing Link: bob (Ping timeout)'')
   \<and> map_option
     (\<lambda>irc. (hasReturned
               (Loop (replicate 4
                        ''Received RecoverableError from server: Closing Link: bob (Ping timeout)'')
                  (replicate 4 Connects) irc 0),
             reconnectCalls
               (Loop (replicate 4
                        ''Received RecoverableError from server: Closing Link: bob (Ping timeout)'')
                  (replicate 4 Connects) irc 0)))
     (IRC 0 ''bob'' ''u'')
   = Some (False, Some 4)
   \<and> map_option
     (\<lambda>irc. reconnectCalls
               (Loop [''Received RecoverableError from server: Closing Link: bob (Ping timeout)'']
                  (replicate 5 DialFails @ [Connects]) irc 0))
     (IRC 0 ''bob'' ''u'')
   = Some (Some 6)"
  by code_simp

end
